theory Spec2Isabelle
  imports Complex_Main
begin

section \<open>Stock data plugin: response cache and tool handlers\<close>

text \<open>
  A shallow embedding of \<^verbatim>\<open>src/index.ts\<close>. JavaScript strings are modelled as
  \<^typ>\<open>string\<close> (sequences of 8-bit code units), \<^verbatim>\<open>Date.now()\<close> values as \<^typ>\<open>int\<close>
  (milliseconds), the numbers of a JSON payload as \<^typ>\<open>real\<close> (the values of the doubles
  they are parsed to). Comparisons, maxima and minima of such numbers are exact; additions,
  subtractions, multiplications, divisions and \<^verbatim>\<open>Math.round\<close> are those of IEEE doubles
  and are taken from the host as parameters. The module-level \<^verbatim>\<open>cache\<close> and the network are explicit state: every
  function that touches them takes a \<open>world\<close> and returns the new one.
\<close>

subsection \<open>Characters and strings\<close>

definition dquote :: char where
  "dquote = CHR 0x22"

definition backslash :: char where
  "backslash = CHR 0x5C"

definition newline :: string where
  "newline = [CHR 0x0A]"

text \<open>\<^verbatim>\<open>Array.prototype.join\<close> on an array of strings.\<close>

fun join :: "string \<Rightarrow> string list \<Rightarrow> string" where
  "join sep [] = []"
| "join sep [x] = x"
| "join sep (x # y # ys) = x @ sep @ join sep (y # ys)"

text \<open>
  \<^verbatim>\<open>String.prototype.toUpperCase\<close> on ASCII text: ticker symbols are ASCII, and the
  letters a to z are the only ASCII characters the operation changes.
\<close>

definition upper_char :: "char \<Rightarrow> char" where
  "upper_char ch =
     (if (97::nat) \<le> of_char ch \<and> of_char ch \<le> (122::nat)
      then char_of (of_char ch - (32::nat)) else ch)"

definition toUpperCase :: "string \<Rightarrow> string" where
  "toUpperCase str = map upper_char str"

text \<open>Decimal rendering of a natural number, as a template literal renders \<^verbatim>\<open>res.status\<close>.\<close>

definition digit_char :: "nat \<Rightarrow> char" where
  "digit_char n = char_of (48 + n mod 10)"

fun string_of_nat :: "nat \<Rightarrow> string" where
  "string_of_nat n =
     (if n < 10 then [digit_char n] else string_of_nat (n div 10) @ [digit_char n])"

declare string_of_nat.simps [simp del]

subsection \<open>\<^verbatim>\<open>JSON.stringify\<close> of a parameter object\<close>

text \<open>
  A \<^verbatim>\<open>Record<string, string>\<close> is modelled by the list of its properties in property
  order. Every call site builds the object from a literal whose names are identifiers
  (symbol, q, resolution, from, to, category, grouping, metric), for which property order
  is the order in which the literal lists them.

  \<^verbatim>\<open>JSON.stringify\<close> quotes a string as ECMAScript's QuoteJSONString does: the two-character
  escapes for backspace, tab, line feed, form feed, carriage return, the double quote and the
  backslash, a six-character unicode escape with lower-case hex digits for the other control
  characters, and every other code unit as it is.
\<close>

definition hex_digit :: "nat \<Rightarrow> char" where
  "hex_digit n = ''0123456789abcdef'' ! (n mod 16)"

definition quote_char :: "char \<Rightarrow> string" where
  "quote_char ch =
     (if ch = CHR 0x08 then [backslash, CHR ''b'']
      else if ch = CHR 0x09 then [backslash, CHR ''t'']
      else if ch = CHR 0x0A then [backslash, CHR ''n'']
      else if ch = CHR 0x0C then [backslash, CHR ''f'']
      else if ch = CHR 0x0D then [backslash, CHR ''r'']
      else if ch = dquote then [backslash, dquote]
      else if ch = backslash then [backslash, backslash]
      else if (of_char ch :: nat) < 32 then
        [backslash, CHR ''u'', CHR ''0'', CHR ''0'',
         hex_digit (of_char ch div 16), hex_digit (of_char ch mod 16)]
      else [ch])"

definition quote_body :: "string \<Rightarrow> string" where
  "quote_body str = concat (map quote_char str)"

definition QuoteJSONString :: "string \<Rightarrow> string" where
  "QuoteJSONString str = dquote # quote_body str @ [dquote]"

definition member :: "string \<times> string \<Rightarrow> string" where
  "member p = QuoteJSONString (fst p) @ '':'' @ QuoteJSONString (snd p)"

definition JSON_stringify :: "(string \<times> string) list \<Rightarrow> string" where
  "JSON_stringify params = ''{'' @ join '','' (map member params) @ ''}''"

subsection \<open>Payloads\<close>

text \<open>
  The interfaces of \<^verbatim>\<open>src/index.ts\<close>. Field names carry a prefix where the source uses
  one-letter names. A field the code guards with a truthiness test before it reads it
  (\<^verbatim>\<open>!candles.c\<close>, \<^verbatim>\<open>!results.result\<close>, \<^verbatim>\<open>!data.metric\<close>) is an option; a string field
  that is only ever read through such a test (\<^verbatim>\<open>!profile.name\<close>, \<^verbatim>\<open>x || "N/A"\<close>) is
  empty when absent, which the test cannot tell apart.
\<close>

record FinnhubQuote =
  q_c :: real
  q_d :: real
  q_dp :: real
  q_h :: real
  q_l :: real
  q_o :: real
  q_pc :: real
  q_t :: real

record FinnhubProfile =
  country :: string
  currency :: string
  exchange :: string
  finnhubIndustry :: string
  ipo :: string
  logo :: string
  marketCapitalization :: real
  name :: string
  phone :: string
  shareOutstanding :: real
  ticker :: string
  weburl :: string

record SearchItem =
  description :: string
  displaySymbol :: string
  symbol :: string
  type :: string

record FinnhubSearchResult =
  count :: real
  result :: "SearchItem list option"

record FinnhubCandles =
  cd_c :: "real list option"
  cd_h :: "real list"
  cd_l :: "real list"
  cd_o :: "real list"
  cd_s :: string
  cd_t :: "real list"
  cd_v :: "real list"

record FinnhubNewsItem =
  category :: string
  datetime :: real
  headline :: string
  news_id :: real
  image :: string
  related :: string
  source :: string
  summary :: string
  url :: string

text \<open>
  What \<^verbatim>\<open>res.json()\<close> can deliver and the cache stores as \<^verbatim>\<open>unknown\<close>: a JSON scalar, or
  a value of one of the types the call sites instantiate \<^verbatim>\<open>T\<close> with.
\<close>

datatype payload =
    JsonNull
  | JsonBool bool
  | JsonNumber real
  | JsonString string
  | Quote FinnhubQuote
  | Search FinnhubSearchResult
  | Profile FinnhubProfile
  | Candles FinnhubCandles
  | News "FinnhubNewsItem list"
  | Peers "string list"
  | Metrics "(string \<times> real option) list option"

text \<open>JavaScript's ToBoolean: objects and arrays are truthy, also when empty.\<close>

fun truthy :: "payload \<Rightarrow> bool" where
  "truthy JsonNull = False"
| "truthy (JsonBool b) = b"
| "truthy (JsonNumber n) = (n \<noteq> 0)"
| "truthy (JsonString str) = (str \<noteq> [])"
| "truthy _ = True"

subsection \<open>Errors\<close>

datatype error =
    ConfigurationError
  | UpstreamError nat string
  | TransportError string
  | ParseError string
  | TypeError string

fun message :: "error \<Rightarrow> string" where
  "message ConfigurationError = ''Finnhub API key not configured. Set it in plugin settings.''"
| "message (UpstreamError status text) = ''Finnhub '' @ string_of_nat status @ '': '' @ text"
| "message (TransportError m) = m"
| "message (ParseError m) = m"
| "message (TypeError m) = m"

subsection \<open>The world: cache store and network\<close>

record cache_entry =
  data :: payload
  expiry :: int

record request =
  req_path :: string
  req_query :: "(string \<times> string) list"

record world =
  cache :: "string \<rightharpoonup> cache_entry"
  fetches :: "request list"

text \<open>
  What \<^verbatim>\<open>fetch\<close> settles with: a rejection (transport error, with its message), or a
  response with its status, its body as text, and its body as \<^verbatim>\<open>res.json()\<close> parses it
  (\<open>Inl\<close> the message of the syntax error).
\<close>

datatype response =
    Rejected string
  | Response nat string "string + payload"

text \<open>
  What the outside contributes to one call of \<^verbatim>\<open>finnhub\<close>: the clock at the lookup, the
  upstream's answer if it is asked, and the clock when the answer is stored.
\<close>

record io =
  t_lookup :: int
  resp :: response
  t_store :: int

definition CACHE_TTL_MS :: int where
  "CACHE_TTL_MS = 15000"

definition getCached :: "int \<Rightarrow> string \<Rightarrow> world \<Rightarrow> payload \<times> world" where
  "getCached now key w =
     (case cache w key of
        None \<Rightarrow> (JsonNull, w)
      | Some entry \<Rightarrow>
          if now > expiry entry then (JsonNull, w\<lparr>cache := (cache w)(key := None)\<rparr>)
          else (data entry, w))"

definition setCache :: "int \<Rightarrow> string \<Rightarrow> payload \<Rightarrow> world \<Rightarrow> world" where
  "setCache now key d w =
     w\<lparr>cache := (cache w)(key \<mapsto> \<lparr>data = d, expiry = now + CACHE_TTL_MS\<rparr>)\<rparr>"

text \<open>\<^verbatim>\<open>URLSearchParams.set\<close>: the first pair of that name takes the value, later ones go.\<close>

fun searchParams_set :: "string \<Rightarrow> string \<Rightarrow> (string \<times> string) list \<Rightarrow> (string \<times> string) list" where
  "searchParams_set k v [] = [(k, v)]"
| "searchParams_set k v (p # ps) =
     (if fst p = k then (k, v) # filter (\<lambda>p'. fst p' \<noteq> k) ps
      else p # searchParams_set k v ps)"

definition build_request :: "string \<Rightarrow> string \<Rightarrow> (string \<times> string) list \<Rightarrow> request" where
  "build_request path apiKey params =
     \<lparr>req_path = path,
      req_query = fold (\<lambda>p q. searchParams_set (fst p) (snd p) q) params [(''token'', apiKey)]\<rparr>"

text \<open>
  \<^verbatim>\<open>finnhub\<close> runs without interruption up to \<^verbatim>\<open>await fetch(...)\<close> and resumes when the
  response arrives. \<open>finnhub_start\<close> is the part before the suspension (lines 88 to 98),
  \<open>finnhub_resume\<close> the part after it (lines 99 to 106), \<open>finnhub\<close> the two in sequence.
\<close>

definition cacheKey_of :: "string \<Rightarrow> (string \<times> string) list \<Rightarrow> string" where
  "cacheKey_of path params = path @ ''?'' @ JSON_stringify params"

datatype started = Hit payload | Miss string

definition finnhub_start ::
  "int \<Rightarrow> string \<Rightarrow> string \<Rightarrow> (string \<times> string) list \<Rightarrow> world \<Rightarrow> started \<times> world" where
  "finnhub_start now path apiKey params w =
     (let cacheKey = cacheKey_of path params;
          (cached, w1) = getCached now cacheKey w
      in if truthy cached then (Hit cached, w1)
         else (Miss cacheKey, w1\<lparr>fetches := fetches w1 @ [build_request path apiKey params]\<rparr>))"

definition res_ok :: "nat \<Rightarrow> bool" where
  "res_ok status \<longleftrightarrow> 200 \<le> status \<and> status \<le> 299"

text \<open>What the awaited response makes of the call: the error thrown, or the parsed body.\<close>

definition response_result :: "response \<Rightarrow> error + payload" where
  "response_result res =
     (case res of
        Rejected m \<Rightarrow> Inl (TransportError m)
      | Response status text json \<Rightarrow>
          if \<not> res_ok status then Inl (UpstreamError status text)
          else (case json of Inl m \<Rightarrow> Inl (ParseError m) | Inr d \<Rightarrow> Inr d))"

definition finnhub_resume ::
  "int \<Rightarrow> string \<Rightarrow> response \<Rightarrow> world \<Rightarrow> (error + payload) \<times> world" where
  "finnhub_resume now cacheKey res w =
     (case response_result res of
        Inl e \<Rightarrow> (Inl e, w)
      | Inr d \<Rightarrow> (Inr d, setCache now cacheKey d w))"

definition finnhub ::
  "io \<Rightarrow> string \<Rightarrow> string \<Rightarrow> (string \<times> string) list \<Rightarrow> world \<Rightarrow> (error + payload) \<times> world" where
  "finnhub x path apiKey params w =
     (case finnhub_start (t_lookup x) path apiKey params w of
        (Hit cached, w1) \<Rightarrow> (Inr cached, w1)
      | (Miss cacheKey, w1) \<Rightarrow> finnhub_resume (t_store x) cacheKey (resp x) w1)"

text \<open>\<^verbatim>\<open>deactivate\<close> clears the store.\<close>

definition deactivate :: "world \<Rightarrow> world" where
  "deactivate w = w\<lparr>cache := Map.empty\<rparr>"

text \<open>
  The steps by which the store changes, whatever the interleaving of the handlers that run:
  a call of \<^verbatim>\<open>finnhub\<close> up to its suspension, the arrival of a response, and
  \<^verbatim>\<open>deactivate\<close>. \<open>stores key s\<close> holds when \<open>s\<close> is the arrival of a successful response
  for that key.
\<close>

datatype step =
    Lookup int string string "(string \<times> string) list"
  | Arrive int string response
  | Clear

fun step_world :: "step \<Rightarrow> world \<Rightarrow> world" where
  "step_world (Lookup now path apiKey params) w = snd (finnhub_start now path apiKey params w)"
| "step_world (Arrive now cacheKey res) w = snd (finnhub_resume now cacheKey res w)"
| "step_world Clear w = deactivate w"

fun stores :: "string \<Rightarrow> step \<Rightarrow> bool" where
  "stores key (Arrive now cacheKey (Response status text (Inr d))) \<longleftrightarrow>
     cacheKey = key \<and> res_ok status"
| "stores key _ \<longleftrightarrow> False"

subsection \<open>Numbers and their rendering\<close>

text \<open>
  A JavaScript number: a finite double, given by its value, or one of the three values that
  are not finite. Negative zero is identified with zero. \<open>number_ge n b\<close> is
  \<^verbatim>\<open>n >= b\<close>, which no rounding affects.
\<close>

datatype number = Finite real | PosInfinity | NegInfinity | NaN

fun number_ge :: "number \<Rightarrow> real \<Rightarrow> bool" where
  "number_ge (Finite a) b \<longleftrightarrow> a \<ge> b"
| "number_ge PosInfinity b \<longleftrightarrow> True"
| "number_ge n b \<longleftrightarrow> False"

definition number_ge0 :: "number \<Rightarrow> bool" where
  "number_ge0 n \<longleftrightarrow> number_ge n 0"

text \<open>\<^verbatim>\<open>Math.max(...xs)\<close> and \<^verbatim>\<open>Math.min(...xs)\<close>.\<close>

fun Math_max :: "real list \<Rightarrow> number" where
  "Math_max [] = NegInfinity"
| "Math_max (x # xs) = Finite (fold max xs x)"

fun Math_min :: "real list \<Rightarrow> number" where
  "Math_min [] = PosInfinity"
| "Math_min (x # xs) = Finite (fold min xs x)"

text \<open>
  The host: the plugin context's setting, and what the JavaScript runtime contributes, taken
  as parameters: the arithmetic of IEEE doubles (\<open>num_add\<close>, \<open>num_sub\<close>, \<open>num_mul\<close> and
  \<open>num_div\<close> for the four operations, each with the rounding and the values that are not
  finite as the runtime produces them, and \<^verbatim>\<open>Math.round\<close>), the library functions that
  render numbers and dates (locale dependent), and the message of the TypeError raised when
  a method of \<^verbatim>\<open>undefined\<close> is called.
\<close>

record host =
  finnhubApiKey :: "string option"
  num_add :: "number \<Rightarrow> number \<Rightarrow> number"
  num_sub :: "number \<Rightarrow> number \<Rightarrow> number"
  num_mul :: "number \<Rightarrow> number \<Rightarrow> number"
  num_div :: "number \<Rightarrow> number \<Rightarrow> number"
  Math_round :: "number \<Rightarrow> number"
  toLocaleString_en_US_2 :: "number \<Rightarrow> string"
  toLocaleString :: "number \<Rightarrow> string"
  toFixed :: "nat \<Rightarrow> number \<Rightarrow> string"
  number_toString :: "number \<Rightarrow> string"
  toLocaleDateString_short :: "number \<Rightarrow> string"
  toLocaleDateString_news :: "number \<Rightarrow> string"
  toISOString_date :: "int \<Rightarrow> string"
  undefined_message :: string

text \<open>\<^verbatim>\<open>String(n)\<close>, and \<open>n\<close> in a template literal, for a finite number.\<close>

definition String_number :: "host \<Rightarrow> real \<Rightarrow> string" where
  "String_number ctx n = number_toString ctx (Finite n)"

definition formatCurrency :: "host \<Rightarrow> number \<Rightarrow> string" where
  "formatCurrency ctx n = toLocaleString_en_US_2 ctx n"

definition formatLargeNumber :: "host \<Rightarrow> number \<Rightarrow> string" where
  "formatLargeNumber ctx n =
     (if number_ge n 1000000000000
      then toFixed ctx 2 (num_div ctx n (Finite 1000000000000)) @ ''T''
      else if number_ge n 1000000000
      then toFixed ctx 2 (num_div ctx n (Finite 1000000000)) @ ''B''
      else if number_ge n 1000000
      then toFixed ctx 2 (num_div ctx n (Finite 1000000)) @ ''M''
      else toLocaleString ctx n)"

subsection \<open>Tool results and the API key\<close>

record TextBlock =
  block_type :: string
  block_text :: string

record ToolResult =
  content :: "TextBlock list"
  isError :: bool

definition ok :: "string \<Rightarrow> ToolResult" where
  "ok txt = \<lparr>content = [\<lparr>block_type = ''text'', block_text = txt\<rparr>], isError = False\<rparr>"

definition err :: "string \<Rightarrow> ToolResult" where
  "err txt = \<lparr>content = [\<lparr>block_type = ''text'', block_text = txt\<rparr>], isError = True\<rparr>"

definition getKey :: "host \<Rightarrow> error + string" where
  "getKey ctx =
     (case finnhubApiKey ctx of
        None \<Rightarrow> Inl ConfigurationError
      | Some key \<Rightarrow> if key = [] then Inl ConfigurationError else Inr key)"

text \<open>
  A handler returns \<open>None\<close> where the payload it receives is not of the type its call of
  \<^verbatim>\<open>finnhub\<close> declares (and not a case the handler tests for): the cast
  \<^verbatim>\<open>as T\<close> is unchecked, and what the code does then is outside this model.
\<close>

subsection \<open>\<^verbatim>\<open>stock_quote\<close>\<close>

definition stock_quote :: "host \<Rightarrow> io \<Rightarrow> string \<Rightarrow> world \<Rightarrow> ToolResult option \<times> world" where
  "stock_quote ctx x args_symbol w =
     (let symb = toUpperCase args_symbol in
      case getKey ctx of
        Inl e \<Rightarrow> (Some (err (message e)), w)
      | Inr key \<Rightarrow>
          (case finnhub x ''/quote'' key [(''symbol'', symb)] w of
             (Inl e, w1) \<Rightarrow> (Some (err (message e)), w1)
           | (Inr (Quote quote), w1) \<Rightarrow>
               if q_c quote = 0 \<and> q_o quote = 0 then
                 (Some (err (''No data found for symbol '' @ [dquote] @ symb @ [dquote]
                             @ ''. Check the ticker and try again.'')), w1)
               else
                 (let direction = (if q_d quote \<ge> 0 then ''+'' else []);
                      lines =
                        [symb @ '': $'' @ formatCurrency ctx (Finite (q_c quote)),
                         ''Change: '' @ direction @ ''$'' @ formatCurrency ctx (Finite (q_d quote))
                           @ '' ('' @ direction @ toFixed ctx 2 (Finite (q_dp quote)) @ ''%)'',
                         ''Open: $'' @ formatCurrency ctx (Finite (q_o quote))
                           @ ''  |  Prev Close: $'' @ formatCurrency ctx (Finite (q_pc quote)),
                         ''High: $'' @ formatCurrency ctx (Finite (q_h quote))
                           @ ''  |  Low: $'' @ formatCurrency ctx (Finite (q_l quote))]
                  in (Some (ok (join newline lines)), w1))
           | (Inr other, w1) \<Rightarrow> (None, w1)))"

subsection \<open>Parallel per-symbol fetches\<close>

text \<open>
  \<^verbatim>\<open>Promise.all(list.map(async (s) => { try { ... await finnhub("/quote", getKey(), ...)
  ... } catch { ... } }))\<close>. Each asynchronous function runs, in list order, up to the
  suspension inside \<^verbatim>\<open>finnhub\<close> (\<open>task_start\<close>); the responses then arrive in an order the
  network decides, given by a schedule of task indices (\<open>settle_all\<close>); the array
  \<^verbatim>\<open>Promise.all\<close> resolves with holds the value of task \<open>i\<close> at index \<open>i\<close>, and exists
  only once every task has settled.
\<close>

datatype pending = Done "error + payload" | Waiting string

definition task_start :: "host \<Rightarrow> int \<Rightarrow> string \<Rightarrow> world \<Rightarrow> pending \<times> world" where
  "task_start ctx now symb w =
     (case getKey ctx of
        Inl e \<Rightarrow> (Done (Inl e), w)
      | Inr key \<Rightarrow>
          (case finnhub_start now ''/quote'' key [(''symbol'', symb)] w of
             (Hit d, w1) \<Rightarrow> (Done (Inr d), w1)
           | (Miss cacheKey, w1) \<Rightarrow> (Waiting cacheKey, w1)))"

fun start_all :: "host \<Rightarrow> (nat \<Rightarrow> io) \<Rightarrow> nat \<Rightarrow> string list \<Rightarrow> world \<Rightarrow> pending list \<times> world" where
  "start_all ctx xs i [] w = ([], w)"
| "start_all ctx xs i (symb # syms) w =
     (let (p, w1) = task_start ctx (t_lookup (xs i)) symb w;
          (ps, w2) = start_all ctx xs (Suc i) syms w1
      in (p # ps, w2))"

fun settle_all ::
  "(nat \<Rightarrow> io) \<Rightarrow> pending list \<Rightarrow> nat list \<Rightarrow> (error + payload) option list \<Rightarrow> world
   \<Rightarrow> (error + payload) option list \<times> world" where
  "settle_all xs ps [] results w = (results, w)"
| "settle_all xs ps (i # sched) results w =
     (if i < length ps \<and> results ! i = None then
        (case ps ! i of
           Done r \<Rightarrow> settle_all xs ps sched (results[i := Some r]) w
         | Waiting cacheKey \<Rightarrow>
             (let (r, w1) = finnhub_resume (t_store (xs i)) cacheKey (resp (xs i)) w
              in settle_all xs ps sched (results[i := Some r]) w1))
      else settle_all xs ps sched results w)"

fun Promise_all :: "'a option list \<Rightarrow> 'a list option" where
  "Promise_all [] = Some []"
| "Promise_all (None # rs) = None"
| "Promise_all (Some r # rs) = map_option ((#) r) (Promise_all rs)"

text \<open>
  \<open>line symb r\<close> is what the asynchronous function returns for symbol \<open>symb\<close> once its call
  of \<^verbatim>\<open>finnhub\<close> has thrown (\<open>Inl\<close>) or returned (\<open>Inr\<close>), its \<^verbatim>\<open>catch\<close> included.
\<close>

definition batch ::
  "host \<Rightarrow> (nat \<Rightarrow> io) \<Rightarrow> nat list \<Rightarrow> (string \<Rightarrow> error + payload \<Rightarrow> string option) \<Rightarrow> string list
   \<Rightarrow> world \<Rightarrow> string list option \<times> world" where
  "batch ctx xs sched line syms w =
     (let (ps, w1) = start_all ctx xs 0 syms w;
          (rs, w2) = settle_all xs ps sched (replicate (length ps) None) w1
      in (case Promise_all rs of
            None \<Rightarrow> (None, w2)
          | Some outcomes \<Rightarrow> (Promise_all (map2 line syms outcomes), w2)))"

subsection \<open>\<^verbatim>\<open>stock_quotes\<close>\<close>

definition quotes_line :: "host \<Rightarrow> string \<Rightarrow> error + payload \<Rightarrow> string option" where
  "quotes_line ctx symb r =
     (case r of
        Inl e \<Rightarrow> Some (symb @ '': Error fetching'')
      | Inr JsonNull \<Rightarrow> Some (symb @ '': Error fetching'')
      | Inr (Quote q) \<Rightarrow>
          if q_c q = 0 \<and> q_o q = 0 then Some (symb @ '': No data'')
          else
            (let dir = (if q_d q \<ge> 0 then ''+'' else [])
             in Some (symb @ '': $'' @ formatCurrency ctx (Finite (q_c q))
                      @ '' ('' @ dir @ toFixed ctx 2 (Finite (q_dp q)) @ ''%)''))
      | Inr other \<Rightarrow> None)"

definition stock_quotes ::
  "host \<Rightarrow> (nat \<Rightarrow> io) \<Rightarrow> nat list \<Rightarrow> string list \<Rightarrow> world \<Rightarrow> ToolResult option \<times> world" where
  "stock_quotes ctx xs sched args_symbols w =
     (let syms = map toUpperCase args_symbols in
      case batch ctx xs sched (quotes_line ctx) syms w of
        (None, w1) \<Rightarrow> (None, w1)
      | (Some results, w1) \<Rightarrow> (Some (ok (join newline results)), w1))"

subsection \<open>\<^verbatim>\<open>stock_search\<close>\<close>

definition search_types :: "string list" where
  "search_types = [''Common Stock'', ''ETP'', ''ETF'', ''REIT'', ''ADR'']"

definition stock_search :: "host \<Rightarrow> io \<Rightarrow> string \<Rightarrow> world \<Rightarrow> ToolResult option \<times> world" where
  "stock_search ctx x query w =
     (case getKey ctx of
        Inl e \<Rightarrow> (Some (err (message e)), w)
      | Inr key \<Rightarrow>
          (case finnhub x ''/search'' key [(''q'', query)] w of
             (Inl e, w1) \<Rightarrow> (Some (err (message e)), w1)
           | (Inr (Search results), w1) \<Rightarrow>
               (case result results of
                  None \<Rightarrow> (Some (err (''No results for '' @ [dquote] @ query @ [dquote] @ ''.'')), w1)
                | Some items \<Rightarrow>
                    if length items = 0 then
                      (Some (err (''No results for '' @ [dquote] @ query @ [dquote] @ ''.'')), w1)
                    else
                      (let filtered =
                             take 10 (filter (\<lambda>r. type r \<in> set search_types \<or> type r = []) items)
                       in if length filtered = 0 then
                            (Some (ok (''Found results but none were common stocks/ETFs. Raw results:''
                                       @ newline
                                       @ join newline
                                           (map (\<lambda>r. symbol r @ '' - '' @ description r
                                                      @ '' ('' @ type r @ '')'')
                                                (take 5 items)))), w1)
                          else
                            (let lines =
                                   map (\<lambda>r. symbol r @ '' - '' @ description r
                                              @ (if type r \<noteq> [] then '' ('' @ type r @ '')'' else []))
                                       filtered
                             in (Some (ok (''Search results for '' @ [dquote] @ query @ [dquote]
                                           @ '':'' @ newline @ join newline lines)), w1))))
           | (Inr other, w1) \<Rightarrow> (None, w1)))"

subsection \<open>\<^verbatim>\<open>stock_company_profile\<close>\<close>

definition or_NA :: "string \<Rightarrow> string" where
  "or_NA str = (if str \<noteq> [] then str else ''N/A'')"

definition stock_company_profile ::
  "host \<Rightarrow> io \<Rightarrow> string \<Rightarrow> world \<Rightarrow> ToolResult option \<times> world" where
  "stock_company_profile ctx x args_symbol w =
     (let symb = toUpperCase args_symbol in
      case getKey ctx of
        Inl e \<Rightarrow> (Some (err (message e)), w)
      | Inr key \<Rightarrow>
          (case finnhub x ''/stock/profile2'' key [(''symbol'', symb)] w of
             (Inl e, w1) \<Rightarrow> (Some (err (message e)), w1)
           | (Inr (Profile profile), w1) \<Rightarrow>
               if name profile = [] then
                 (Some (err (''No company profile found for '' @ [dquote] @ symb @ [dquote] @ ''.'')), w1)
               else
                 (let lines =
                        [name profile @ '' ('' @ ticker profile @ '')'',
                         ''Industry: '' @ or_NA (finnhubIndustry profile),
                         ''Exchange: '' @ or_NA (exchange profile),
                         ''Market Cap: $''
                           @ formatLargeNumber ctx
                               (num_mul ctx (Finite (marketCapitalization profile))
                                  (Finite 1000000)),
                         ''Shares Outstanding: ''
                           @ formatLargeNumber ctx
                               (num_mul ctx (Finite (shareOutstanding profile)) (Finite 1000000)),
                         ''IPO Date: '' @ or_NA (ipo profile),
                         ''Country: '' @ or_NA (country profile),
                         ''Currency: '' @ or_NA (currency profile),
                         ''Website: '' @ or_NA (weburl profile)]
                  in (Some (ok (join newline lines)), w1))
           | (Inr other, w1) \<Rightarrow> (None, w1)))"

subsection \<open>\<^verbatim>\<open>stock_candles\<close>\<close>

text \<open>\<^verbatim>\<open>(x as number) || d\<close>: the default replaces a number that is missing or zero.\<close>

definition or_default :: "real option \<Rightarrow> real \<Rightarrow> real" where
  "or_default a d = (case a of None \<Rightarrow> d | Some n \<Rightarrow> if n = 0 then d else n)"

definition candles_days :: "real option \<Rightarrow> real" where
  "candles_days args_days = min (max (or_default args_days 30) 1) 365"

text \<open>\<^verbatim>\<open>xs[i]\<close>: \<open>None\<close> is \<^verbatim>\<open>undefined\<close>.\<close>

definition element :: "'a list \<Rightarrow> nat \<Rightarrow> 'a option" where
  "element xs i = (if i < length xs then Some (xs ! i) else None)"

text \<open>The first error thrown ends the loop.\<close>

fun collect :: "(error + 'a) list \<Rightarrow> error + 'a list" where
  "collect [] = Inr []"
| "collect (Inl e # rs) = Inl e"
| "collect (Inr r # rs) = (case collect rs of Inl e \<Rightarrow> Inl e | Inr rs' \<Rightarrow> Inr (r # rs'))"

text \<open>The em dash of the literal in line 375, in UTF-8.\<close>

definition em_dash :: string where
  "em_dash = [CHR 0xE2, CHR 0x80, CHR 0x94]"

text \<open>
  One pass of the loop of lines 388 to 391. \<^verbatim>\<open>formatCurrency\<close> and
  \<^verbatim>\<open>formatLargeNumber\<close> throw a TypeError on \<^verbatim>\<open>undefined\<close>; a date made of
  \<^verbatim>\<open>undefined\<close> is the invalid date (of \<open>NaN\<close>).
\<close>

definition point_line :: "host \<Rightarrow> FinnhubCandles \<Rightarrow> real list \<Rightarrow> nat \<Rightarrow> error + string" where
  "point_line ctx candles cs i =
     (let date = toLocaleDateString_short ctx
                   (case element (cd_t candles) i of
                      None \<Rightarrow> NaN
                    | Some t \<Rightarrow> num_mul ctx (Finite t) (Finite 1000))
      in case (element (cd_o candles) i, element (cd_h candles) i, element (cd_l candles) i, element cs i,
               element (cd_v candles) i) of
           (Some po, Some ph, Some pl, Some pc, Some pv) \<Rightarrow>
             Inr (''  '' @ date @ '': O $'' @ formatCurrency ctx (Finite po)
                  @ '' H $'' @ formatCurrency ctx (Finite ph)
                  @ '' L $'' @ formatCurrency ctx (Finite pl)
                  @ '' C $'' @ formatCurrency ctx (Finite pc)
                  @ '' V '' @ formatLargeNumber ctx (Finite pv))
         | _ \<Rightarrow> Inl (TypeError (undefined_message ctx)))"

text \<open>Lines 362 to 393: what the handler makes of the candles it has received.\<close>

definition candles_report ::
  "host \<Rightarrow> string \<Rightarrow> string \<Rightarrow> real \<Rightarrow> FinnhubCandles \<Rightarrow> ToolResult" where
  "candles_report ctx symb resolution days candles =
     (let nodata = err (''No candle data for '' @ [dquote] @ symb @ [dquote] @ '' with resolution ''
                        @ resolution @ '' over '' @ String_number ctx days @ '' days.'')
      in case cd_c candles of
           None \<Rightarrow> nodata
         | Some cs \<Rightarrow>
             if cd_s candles \<noteq> ''ok'' \<or> length cs = 0 then nodata
             else
               (let count = length cs;
                    latest = cs ! (count - 1);
                    earliest = cs ! 0;
                    periodReturn =
                      num_mul ctx
                        (num_div ctx (num_sub ctx (Finite latest) (Finite earliest))
                           (Finite earliest))
                        (Finite 100);
                    high = Math_max (cd_h candles);
                    low = Math_min (cd_l candles);
                    avgVolume =
                      num_div ctx
                        (foldl (\<lambda>a b. num_add ctx a (Finite b)) (Finite 0) (cd_v candles))
                        (Finite (real count));
                    lines =
                      [symb @ '' '' @ em_dash @ '' '' @ string_of_nat count @ '' candles (''
                         @ resolution @ '' resolution, '' @ String_number ctx days @ '' days)'',
                       [],
                       ''Latest Close: $'' @ formatCurrency ctx (Finite latest),
                       ''Period Start: $'' @ formatCurrency ctx (Finite earliest),
                       ''Period Return: '' @ (if number_ge0 periodReturn then ''+'' else [])
                         @ toFixed ctx 2 periodReturn @ ''%'',
                       ''Period High: $'' @ formatCurrency ctx high,
                       ''Period Low: $'' @ formatCurrency ctx low,
                       ''Avg Volume: '' @ formatLargeNumber ctx (Math_round ctx avgVolume)];
                    tail = min 5 count
                in case collect (map (point_line ctx candles cs) [count - tail..<count]) of
                     Inl e \<Rightarrow> err (message e)
                   | Inr points \<Rightarrow>
                       ok (join newline
                             (lines @ ['''', ''Last '' @ string_of_nat tail @ '' data points:'']
                              @ points))))"

text \<open>
  Lines 346 to 397. \<^verbatim>\<open>Math.floor(Date.now() / 1000)\<close> is the integer quotient: the
  instants of a \<^verbatim>\<open>Date\<close> are integers below \<open>2\<^sup>5\<^sup>3\<close>, and the quotient of such a
  double by 1000 is never rounded up to the next integer. The subtraction and the
  multiplication that give \<^verbatim>\<open>from\<close> are the host's.
\<close>

definition stock_candles ::
  "host \<Rightarrow> int \<Rightarrow> io \<Rightarrow> string \<Rightarrow> string option \<Rightarrow> real option \<Rightarrow> world
   \<Rightarrow> ToolResult option \<times> world" where
  "stock_candles ctx now x args_symbol args_resolution args_days w =
     (let symb = toUpperCase args_symbol;
          resolution = (case args_resolution of None \<Rightarrow> ''D'' | Some r \<Rightarrow> if r = [] then ''D'' else r);
          days = candles_days args_days;
          to = now div 1000;
          from = num_sub ctx (Finite (real_of_int to)) (num_mul ctx (Finite days) (Finite 86400))
      in case getKey ctx of
           Inl e \<Rightarrow> (Some (err (message e)), w)
         | Inr key \<Rightarrow>
             (case finnhub x ''/stock/candle'' key
                     [(''symbol'', symb), (''resolution'', resolution),
                      (''from'', number_toString ctx from),
                      (''to'', String_number ctx (real_of_int to))] w of
                (Inl e, w1) \<Rightarrow> (Some (err (message e)), w1)
              | (Inr (Candles candles), w1) \<Rightarrow>
                  (Some (candles_report ctx symb resolution days candles), w1)
              | (Inr other, w1) \<Rightarrow> (None, w1)))"

subsection \<open>\<^verbatim>\<open>stock_news\<close>\<close>

definition news_limit :: "real option \<Rightarrow> real" where
  "news_limit args_limit = min (max (or_default args_limit 5) 1) 20"

definition article_lines :: "host \<Rightarrow> FinnhubNewsItem \<Rightarrow> string list" where
  "article_lines ctx article =
     ['''', ''['' @ toLocaleDateString_news ctx
                      (num_mul ctx (Finite (datetime article)) (Finite 1000)) @ ''] ''
            @ headline article]
     @ (if summary article \<noteq> [] then
          [''  '' @ (if length (summary article) > 200 then take 200 (summary article) @ ''...''
                     else summary article)]
        else [])
     @ [''  Source: '' @ source article @ '' | '' @ url article]"

definition stock_news ::
  "host \<Rightarrow> int \<Rightarrow> int \<Rightarrow> io \<Rightarrow> string option \<Rightarrow> real option \<Rightarrow> world
   \<Rightarrow> ToolResult option \<times> world" where
  "stock_news ctx now_to now_from x args_symbol args_limit w =
     (let symb = (case args_symbol of
                    None \<Rightarrow> None
                  | Some s \<Rightarrow> if s = [] then None else Some (toUpperCase s));
          limit = news_limit args_limit;
          call = (case symb of
                    Some s \<Rightarrow>
                      (''/company-news'',
                       [(''symbol'', s),
                        (''from'', toISOString_date ctx (now_from - 7 * 86400000)),
                        (''to'', toISOString_date ctx now_to)])
                  | None \<Rightarrow> (''/news'', [(''category'', ''general'')]));
          nonews = ok (case symb of
                         Some s \<Rightarrow> ''No recent news for '' @ s @ ''.''
                       | None \<Rightarrow> ''No market news available.'')
      in case getKey ctx of
           Inl e \<Rightarrow> (Some (err (message e)), w)
         | Inr key \<Rightarrow>
             (case finnhub x (fst call) key (snd call) w of
                (Inl e, w1) \<Rightarrow> (Some (err (message e)), w1)
              | (Inr JsonNull, w1) \<Rightarrow> (Some nonews, w1)
              | (Inr (News news), w1) \<Rightarrow>
                  if length news = 0 then (Some nonews, w1)
                  else
                    (let articles = take (nat \<lfloor>limit\<rfloor>) news;
                         lines = [case symb of Some s \<Rightarrow> ''News for '' @ s @ '':''
                                             | None \<Rightarrow> ''Market News:'']
                                 @ concat (map (article_lines ctx) articles)
                     in (Some (ok (join newline lines)), w1))
              | (Inr other, w1) \<Rightarrow> (None, w1)))"

subsection \<open>\<^verbatim>\<open>stock_peers\<close>\<close>

definition peers_line :: "host \<Rightarrow> string \<Rightarrow> error + payload \<Rightarrow> string option" where
  "peers_line ctx peer r =
     (case r of
        Inl e \<Rightarrow> Some (peer @ '': Error'')
      | Inr JsonNull \<Rightarrow> Some (peer @ '': Error'')
      | Inr (Quote q) \<Rightarrow>
          if q_c q = 0 then Some (peer @ '': No data'')
          else
            (let dir = (if q_d q \<ge> 0 then ''+'' else [])
             in Some (peer @ '': $'' @ formatCurrency ctx (Finite (q_c q))
                      @ '' ('' @ dir @ toFixed ctx 2 (Finite (q_dp q)) @ ''%)''))
      | Inr other \<Rightarrow> None)"

definition topPeers_of :: "string \<Rightarrow> string list \<Rightarrow> string list" where
  "topPeers_of symb peers = take 8 (filter (\<lambda>p. p \<noteq> symb) peers)"

definition stock_peers ::
  "host \<Rightarrow> io \<Rightarrow> (nat \<Rightarrow> io) \<Rightarrow> nat list \<Rightarrow> string \<Rightarrow> world \<Rightarrow> ToolResult option \<times> world" where
  "stock_peers ctx x xs sched args_symbol w =
     (let symb = toUpperCase args_symbol;
          nopeers = err (''No peers found for '' @ [dquote] @ symb @ [dquote] @ ''.'')
      in case getKey ctx of
           Inl e \<Rightarrow> (Some (err (message e)), w)
         | Inr key \<Rightarrow>
             (case finnhub x ''/stock/peers'' key [(''symbol'', symb), (''grouping'', ''industry'')] w of
                (Inl e, w1) \<Rightarrow> (Some (err (message e)), w1)
              | (Inr JsonNull, w1) \<Rightarrow> (Some nopeers, w1)
              | (Inr (Peers peers), w1) \<Rightarrow>
                  if length peers = 0 then (Some nopeers, w1)
                  else
                    (case batch ctx xs sched (peers_line ctx) (topPeers_of symb peers) w1 of
                       (None, w2) \<Rightarrow> (None, w2)
                     | (Some quotes, w2) \<Rightarrow>
                         (Some (ok (''Peers of '' @ symb @ '':'' @ newline @ join newline quotes)), w2))
              | (Inr other, w1) \<Rightarrow> (None, w1)))"

subsection \<open>\<^verbatim>\<open>stock_metrics\<close>\<close>

text \<open>\<^verbatim>\<open>m[k]\<close> when it is neither missing nor \<^verbatim>\<open>null\<close>.\<close>

definition metric_at :: "(string \<times> real option) list \<Rightarrow> string \<Rightarrow> real option" where
  "metric_at m k = (case map_of m k of Some (Some v) \<Rightarrow> Some v | _ \<Rightarrow> None)"

definition metric_fmt :: "host \<Rightarrow> real option \<Rightarrow> string \<Rightarrow> string \<Rightarrow> string" where
  "metric_fmt ctx v prefix suffix =
     (case v of Some n \<Rightarrow> prefix @ formatCurrency ctx (Finite n) @ suffix | None \<Rightarrow> ''N/A'')"

definition metric_fixed :: "host \<Rightarrow> nat \<Rightarrow> real option \<Rightarrow> string \<Rightarrow> string" where
  "metric_fixed ctx digits v suffix =
     (case v of Some n \<Rightarrow> toFixed ctx digits (Finite n) @ suffix | None \<Rightarrow> ''N/A'')"

definition metric_large :: "host \<Rightarrow> real option \<Rightarrow> string" where
  "metric_large ctx v =
     (case v of
        Some n \<Rightarrow> ''$'' @ formatLargeNumber ctx (num_mul ctx (Finite n) (Finite 1000000))
      | None \<Rightarrow> ''N/A'')"

definition stock_metrics :: "host \<Rightarrow> io \<Rightarrow> string \<Rightarrow> world \<Rightarrow> ToolResult option \<times> world" where
  "stock_metrics ctx x args_symbol w =
     (let symb = toUpperCase args_symbol;
          nometrics = err (''No metrics found for '' @ [dquote] @ symb @ [dquote] @ ''.'')
      in case getKey ctx of
           Inl e \<Rightarrow> (Some (err (message e)), w)
         | Inr key \<Rightarrow>
             (case finnhub x ''/stock/metric'' key [(''symbol'', symb), (''metric'', ''all'')] w of
                (Inl e, w1) \<Rightarrow> (Some (err (message e)), w1)
              | (Inr (Metrics None), w1) \<Rightarrow> (Some nometrics, w1)
              | (Inr (Metrics (Some m)), w1) \<Rightarrow>
                  if length m = 0 then (Some nometrics, w1)
                  else
                    (let lines =
                           [''Key Metrics for '' @ symb @ '':'',
                            [],
                            ''52-Week High: '' @ metric_fmt ctx (metric_at m ''52WeekHigh'') ''$'' [],
                            ''52-Week Low: '' @ metric_fmt ctx (metric_at m ''52WeekLow'') ''$'' [],
                            ''52-Week Return: ''
                              @ metric_fmt ctx (metric_at m ''52WeekPriceReturnDaily'') [] ''%'',
                            [],
                            ''P/E (TTM): '' @ metric_fixed ctx 2 (metric_at m ''peTTM'') [],
                            ''P/B (Quarterly): '' @ metric_fixed ctx 2 (metric_at m ''pbQuarterly'') [],
                            ''EPS (TTM): '' @ metric_fmt ctx (metric_at m ''epsTTM'') ''$'' [],
                            [],
                            ''Beta: '' @ metric_fixed ctx 3 (metric_at m ''beta'') [],
                            ''Dividend Yield: ''
                              @ metric_fixed ctx 2 (metric_at m ''dividendYieldIndicatedAnnual'') ''%'',
                            ''Dividend Per Share: ''
                              @ metric_fmt ctx (metric_at m ''dividendPerShareAnnual'') ''$'' [],
                            [],
                            ''Market Cap: '' @ metric_large ctx (metric_at m ''marketCapitalization''),
                            ''Revenue (TTM): '' @ metric_large ctx (metric_at m ''revenueTTM''),
                            ''Net Income (TTM): '' @ metric_large ctx (metric_at m ''netIncomeTTM''),
                            ''ROE (TTM): '' @ metric_fixed ctx 2 (metric_at m ''roeTTM'') ''%'']
                     in (Some (ok (join newline lines)), w1))
              | (Inr other, w1) \<Rightarrow> (None, w1)))"

subsection \<open>Notions used to state the properties\<close>

text \<open>What the call of \<^verbatim>\<open>finnhub\<close> in task \<open>i\<close> throws or returns, from where its start left it.\<close>

definition task_outcome :: "(nat \<Rightarrow> io) \<Rightarrow> nat \<Rightarrow> pending \<Rightarrow> error + payload" where
  "task_outcome xs i p =
     (case p of Done r \<Rightarrow> r | Waiting cacheKey \<Rightarrow> response_result (resp (xs i)))"



text \<open>The value of a hexadecimal digit, to read an escape back.\<close>

definition hex_val :: "char \<Rightarrow> nat" where
  "hex_val ch = (if (of_char ch :: nat) < 58 then of_char ch - 48 else of_char ch - 87)"

text \<open>
  Concrete values for the worked examples: an empty world, a host whose arithmetic is exact
  on finite numbers (a division by zero gives an infinity or \<open>NaN\<close>, an operand that is
  not finite gives \<open>NaN\<close>) and whose library functions render every number and date as a hash
  sign, and the upstream's answer to one call.
\<close>

fun exact_op :: "(real \<Rightarrow> real \<Rightarrow> real) \<Rightarrow> number \<Rightarrow> number \<Rightarrow> number" where
  "exact_op f (Finite a) (Finite b) = Finite (f a b)"
| "exact_op f a b = NaN"

fun exact_div :: "number \<Rightarrow> number \<Rightarrow> number" where
  "exact_div (Finite a) (Finite b) =
     (if b \<noteq> 0 then Finite (a / b)
      else if a > 0 then PosInfinity else if a < 0 then NegInfinity else NaN)"
| "exact_div a b = NaN"

fun exact_round :: "number \<Rightarrow> number" where
  "exact_round (Finite a) = Finite (of_int \<lfloor>a + 1 / 2\<rfloor>)"
| "exact_round n = n"

definition world0 :: world where
  "world0 = \<lparr>cache = Map.empty, fetches = []\<rparr>"

definition stub_host :: host where
  "stub_host =
     \<lparr>finnhubApiKey = Some ''k'',
      num_add = exact_op (\<lambda>a b. a + b),
      num_sub = exact_op (\<lambda>a b. a - b),
      num_mul = exact_op (\<lambda>a b. a * b),
      num_div = exact_div,
      Math_round = exact_round,
      toLocaleString_en_US_2 = (\<lambda>n. ''#''),
      toLocaleString = (\<lambda>n. ''#''),
      toFixed = (\<lambda>digits n. ''#''),
      number_toString = (\<lambda>n. ''#''),
      toLocaleDateString_short = (\<lambda>n. ''#''),
      toLocaleDateString_news = (\<lambda>n. ''#''),
      toISOString_date = (\<lambda>n. ''#''),
      undefined_message = ''undefined has no properties''\<rparr>"

definition answers :: "response \<Rightarrow> io" where
  "answers r = \<lparr>t_lookup = 0, resp = r, t_store = 0\<rparr>"

definition delivers :: "payload \<Rightarrow> io" where
  "delivers d = answers (Response 200 [] (Inr d))"

definition zero_quote :: FinnhubQuote where
  "zero_quote = \<lparr>q_c = 0, q_d = 0, q_dp = 0, q_h = 0, q_l = 0, q_o = 0, q_pc = 0, q_t = 0\<rparr>"

definition stale_world :: world where
  "stale_world = \<lparr>cache = [''key'' \<mapsto> \<lparr>data = JsonBool True, expiry = 100\<rparr>], fetches = []\<rparr>"

definition ab_params :: "(string \<times> string) list" where
  "ab_params = [(''a'', ''1''), (''b'', ''2'')]"

definition ba_params :: "(string \<times> string) list" where
  "ba_params = [(''b'', ''2''), (''a'', ''1'')]"

definition general_news :: "(string \<times> string) list" where
  "general_news = [(''category'', ''general'')]"

definition empty_search :: FinnhubSearchResult where
  "empty_search = \<lparr>count = 0, result = Some []\<rparr>"

definition empty_profile :: FinnhubProfile where
  "empty_profile =
     \<lparr>country = [], currency = [], exchange = [], finnhubIndustry = [], ipo = [], logo = [],
      marketCapitalization = 0, name = [], phone = [], shareOutstanding = 0, ticker = [],
      weburl = []\<rparr>"

definition no_candles :: FinnhubCandles where
  "no_candles =
     \<lparr>cd_c = None, cd_h = [], cd_l = [], cd_o = [], cd_s = ''no_data'', cd_t = [], cd_v = []\<rparr>"

definition one_quote :: FinnhubQuote where
  "one_quote = \<lparr>q_c = 1, q_d = 1, q_dp = 1, q_h = 1, q_l = 1, q_o = 1, q_pc = 1, q_t = 1\<rparr>"

definition two_answers :: "nat \<Rightarrow> io" where
  "two_answers i = (if i = 0 then answers (Rejected ''down'') else delivers (Quote one_quote))"

definition three_peers :: "string list" where
  "three_peers = [''AAPL'', ''MSFT'', ''GOOG'']"



section \<open>Properties of the response cache\<close>

subsection \<open>The cache key is injective in the parameter list\<close>

lemma hex_val_hex_digit: "n < 16 \<Longrightarrow> hex_val (hex_digit n) = n"
proof -
  assume "n < 16"
  then consider "n = 0" | "n = 1" | "n = 2" | "n = 3" | "n = 4" | "n = 5" | "n = 6" | "n = 7"
    | "n = 8" | "n = 9" | "n = 10" | "n = 11" | "n = 12" | "n = 13" | "n = 14" | "n = 15"
    by atomize_elim arith
  then show ?thesis
    by cases (simp_all add: hex_val_def hex_digit_def)
qed

lemma hex_digit_inj: "i < 16 \<Longrightarrow> j < 16 \<Longrightarrow> hex_digit i = hex_digit j \<Longrightarrow> i = j"
  by (metis hex_val_hex_digit)

lemma control_code_eq:
  assumes "(of_char a :: nat) < 32" "(of_char b :: nat) < 32"
    and "hex_digit (of_char a div 16) = hex_digit (of_char b div 16)"
    and "hex_digit (of_char a mod 16) = hex_digit (of_char b mod 16)"
  shows "a = b"
proof -
  let ?m = "of_char a :: nat" and ?n = "of_char b :: nat"
  have "?m div 16 < 16" "?n div 16 < 16" using assms(1,2) by simp_all
  then have d: "?m div 16 = ?n div 16" using assms(3) hex_digit_inj by blast
  have "?m mod 16 < 16" "?n mod 16 < 16" by simp_all
  then have m: "?m mod 16 = ?n mod 16" using assms(4) hex_digit_inj by blast
  have "?m = ?n" using d m by (metis div_mult_mod_eq)
  then show ?thesis by simp
qed

lemma quote_char_prefix_free:
  "quote_char a @ r1 = quote_char b @ r2 \<Longrightarrow> a = b \<and> r1 = r2"
  unfolding quote_char_def
  by (auto simp: dquote_def backslash_def split: if_splits dest: control_code_eq)

lemma quote_char_not_dquote: "quote_char a @ r = dquote # r' \<Longrightarrow> False"
  unfolding quote_char_def by (auto simp: dquote_def backslash_def split: if_splits)

lemma quote_body_inj:
  "quote_body s @ dquote # r1 = quote_body t @ dquote # r2 \<Longrightarrow> s = t \<and> r1 = r2"
proof (induction s arbitrary: t)
  case Nil
  then show ?case
    by (cases t) (auto simp: quote_body_def dest: quote_char_not_dquote[OF sym])
next
  case (Cons a s)
  show ?case
  proof (cases t)
    case Nil
    with Cons.prems show ?thesis
      by (auto simp: quote_body_def dest: quote_char_not_dquote)
  next
    case (Cons b t')
    with Cons.prems
    have "quote_char a @ (quote_body s @ dquote # r1) = quote_char b @ (quote_body t' @ dquote # r2)"
      by (simp add: quote_body_def)
    then have "a = b" "quote_body s @ dquote # r1 = quote_body t' @ dquote # r2"
      using quote_char_prefix_free by blast+
    with Cons.IH Cons show ?thesis by blast
  qed
qed

lemma member_inj: "member p @ r1 = member q @ r2 \<Longrightarrow> p = q \<and> r1 = r2"
proof -
  assume "member p @ r1 = member q @ r2"
  then have "quote_body (fst p) @ dquote # (CHR '':'' # dquote # quote_body (snd p) @ dquote # r1)
     = quote_body (fst q) @ dquote # (CHR '':'' # dquote # quote_body (snd q) @ dquote # r2)"
    by (simp add: member_def QuoteJSONString_def)
  then have 1: "fst p = fst q"
    and "quote_body (snd p) @ dquote # r1 = quote_body (snd q) @ dquote # r2"
    using quote_body_inj by blast+
  then have "snd p = snd q" "r1 = r2" using quote_body_inj by blast+
  with 1 show ?thesis by (simp add: prod_eq_iff)
qed

lemma member_head: "\<exists>r. member p = dquote # r"
  by (simp add: member_def QuoteJSONString_def)

lemma members_inj:
  "join '','' (map member ps) @ ''}'' = join '','' (map member qs) @ ''}'' \<Longrightarrow> ps = qs"
proof (induction ps arbitrary: qs)
  case Nil
  then show ?case
  proof (cases qs)
    case (Cons q qs')
    obtain r where "member q = dquote # r" using member_head by blast
    with Nil Cons show ?thesis by (cases qs') (auto simp: dquote_def)
  qed simp
next
  case (Cons p ps)
  show ?case
  proof (cases qs)
    case Nil
    obtain r where "member p = dquote # r" using member_head by blast
    with Cons.prems Nil show ?thesis by (cases ps) (auto simp: dquote_def)
  next
    case c: (Cons q qs')
    define tl1 where "tl1 = (if ps = [] then ''}'' else '','' @ join '','' (map member ps) @ ''}'')"
    define tl2 where "tl2 = (if qs' = [] then ''}'' else '','' @ join '','' (map member qs') @ ''}'')"
    have l: "join '','' (map member (p # ps)) @ ''}'' = member p @ tl1"
      by (cases ps) (simp_all add: tl1_def)
    have r: "join '','' (map member (q # qs')) @ ''}'' = member q @ tl2"
      by (cases qs') (simp_all add: tl2_def)
    from Cons.prems c l r have "member p @ tl1 = member q @ tl2" by simp
    then have pq: "p = q" and t: "tl1 = tl2" using member_inj by blast+
    have "ps = qs'"
    proof (cases "ps = []")
      case True
      with t show ?thesis by (auto simp: tl1_def tl2_def split: if_splits)
    next
      case False
      with t have "qs' \<noteq> []" by (auto simp: tl1_def tl2_def split: if_splits)
      with False t have "join '','' (map member ps) @ ''}'' = join '','' (map member qs') @ ''}''"
        by (simp add: tl1_def tl2_def)
      then show ?thesis by (rule Cons.IH)
    qed
    with pq c show ?thesis by simp
  qed
qed

lemma JSON_stringify_inj: "JSON_stringify ps = JSON_stringify qs \<longleftrightarrow> ps = qs"
  using members_inj by (auto simp: JSON_stringify_def)

lemma cacheKey_of_inj: "cacheKey_of path ps = cacheKey_of path qs \<longleftrightarrow> ps = qs"
  by (simp add: cacheKey_of_def JSON_stringify_inj)

subsection \<open>Lookup, store and the two halves of a call\<close>

lemma getCached_cache:
  "cache (snd (getCached now key w)) k = None \<or> cache (snd (getCached now key w)) k = cache w k"
  by (simp add: getCached_def split: option.splits)

lemma getCached_fetches: "fetches (snd (getCached now key w)) = fetches w"
  by (simp add: getCached_def split: option.splits)

lemma getCached_absent: "cache w key = None \<Longrightarrow> getCached now key w = (JsonNull, w)"
  by (simp add: getCached_def)

lemma getCached_falsy_again:
  assumes "\<not> truthy (fst (getCached now key w))"
  shows "\<not> truthy (fst (getCached now' key (snd (getCached now key w))))"
  using assms by (auto simp: getCached_def split: option.splits if_splits)

lemma getCached_more_fetches:
  "getCached now key (w\<lparr>fetches := fs\<rparr>)
     = (fst (getCached now key w), (snd (getCached now key w))\<lparr>fetches := fs\<rparr>)"
  by (simp add: getCached_def split: option.splits)

lemma finnhub_resume_fst: "fst (finnhub_resume now ck res w) = response_result res"
  by (simp add: finnhub_resume_def split: sum.splits)

lemma finnhub_resume_failure:
  "response_result res = Inl e \<Longrightarrow> finnhub_resume now ck res w = (Inl e, w)"
  by (simp add: finnhub_resume_def)

lemma finnhub_resume_success:
  "response_result res = Inr d \<Longrightarrow> finnhub_resume now ck res w = (Inr d, setCache now ck d w)"
  by (simp add: finnhub_resume_def)

lemma finnhub_resume_fetches: "fetches (snd (finnhub_resume now ck res w)) = fetches w"
  by (simp add: finnhub_resume_def setCache_def split: sum.splits)

lemma finnhub_start_cases:
  "finnhub_start now path apiKey params w =
     (if truthy (fst (getCached now (cacheKey_of path params) w))
      then (Hit (fst (getCached now (cacheKey_of path params) w)),
            snd (getCached now (cacheKey_of path params) w))
      else (Miss (cacheKey_of path params),
            (snd (getCached now (cacheKey_of path params) w))
              \<lparr>fetches := fetches w @ [build_request path apiKey params]\<rparr>))"
proof -
  obtain d w1 where g: "getCached now (cacheKey_of path params) w = (d, w1)"
    by (cases "getCached now (cacheKey_of path params) w")
  then have "fetches w1 = fetches w"
    using getCached_fetches[of now "cacheKey_of path params" w] by simp
  with g show ?thesis by (simp add: finnhub_start_def Let_def)
qed

lemma finnhub_hit:
  "truthy (fst (getCached (t_lookup x) (cacheKey_of path params) w)) \<Longrightarrow>
   finnhub x path apiKey params w =
     (Inr (fst (getCached (t_lookup x) (cacheKey_of path params) w)),
      snd (getCached (t_lookup x) (cacheKey_of path params) w))"
  by (simp add: finnhub_def finnhub_start_cases)

lemma finnhub_miss:
  "\<not> truthy (fst (getCached (t_lookup x) (cacheKey_of path params) w)) \<Longrightarrow>
   finnhub x path apiKey params w =
     finnhub_resume (t_store x) (cacheKey_of path params) (resp x)
       ((snd (getCached (t_lookup x) (cacheKey_of path params) w))
          \<lparr>fetches := fetches w @ [build_request path apiKey params]\<rparr>)"
  by (simp add: finnhub_def finnhub_start_cases)

lemma finnhub_failed:
  assumes "fst (finnhub x path apiKey params w) = Inl e"
  shows "\<not> truthy (fst (getCached (t_lookup x) (cacheKey_of path params) w))"
    and "response_result (resp x) = Inl e"
    and "finnhub x path apiKey params w =
      (Inl e, (snd (getCached (t_lookup x) (cacheKey_of path params) w))
          \<lparr>fetches := fetches w @ [build_request path apiKey params]\<rparr>)"
proof -
  show n: "\<not> truthy (fst (getCached (t_lookup x) (cacheKey_of path params) w))"
    using assms finnhub_hit[of x path params w apiKey] by auto
  show r: "response_result (resp x) = Inl e"
    using assms unfolding finnhub_miss[OF n] by (simp add: finnhub_resume_fst)
  show "finnhub x path apiKey params w =
      (Inl e, (snd (getCached (t_lookup x) (cacheKey_of path params) w))
          \<lparr>fetches := fetches w @ [build_request path apiKey params]\<rparr>)"
    unfolding finnhub_miss[OF n] using r by (rule finnhub_resume_failure)
qed

lemma step_keeps_absent:
  "cache w key = None \<Longrightarrow> \<not> stores key s \<Longrightarrow> cache (step_world s w) key = None"
proof (cases s)
  case (Lookup now path apiKey params)
  assume "cache w key = None"
  then have "cache (snd (getCached now (cacheKey_of path params) w)) key = None"
    using getCached_cache[of now "cacheKey_of path params" w key] by auto
  then show ?thesis using Lookup by (simp add: finnhub_start_cases)
next
  case (Arrive now cacheKey res)
  assume "cache w key = None" "\<not> stores key s"
  then show ?thesis using Arrive
    by (cases res)
      (auto simp: finnhub_resume_def response_result_def setCache_def split: sum.splits)
next
  case Clear
  then show ?thesis by (simp add: deactivate_def)
qed

lemma steps_keep_absent:
  "cache w key = None \<Longrightarrow> \<forall>s \<in> set steps. \<not> stores key s \<Longrightarrow>
   cache (fold step_world steps w) key = None"
  by (induction steps arbitrary: w) (simp_all add: step_keeps_absent)

lemmas eval_cache =
  finnhub_def finnhub_start_def finnhub_resume_def response_result_def res_ok_def
  getCached_def setCache_def cacheKey_of_def JSON_stringify_def member_def QuoteJSONString_def
  quote_body_def quote_char_def dquote_def backslash_def build_request_def CACHE_TTL_MS_def
  world0_def answers_def delivers_def Let_def

subsection \<open>C1: the cache key and the order of the parameters\<close>

text \<open>
  C1, as the code has it. For one path, two parameter objects derive the same cache key
  exactly when they list the same name/value pairs in the same order. A lookup under the key
  of \<open>qs\<close> therefore finds what was stored under the key of \<open>ps\<close> when \<open>ps = qs\<close> (while the
  entry is live), and does not see it when the two differ, be it only in the order of the
  pairs: then it returns what it would have returned without that store.
\<close>
theorem cacheKey_depends_on_order:
  "(cacheKey_of path ps = cacheKey_of path qs \<longleftrightarrow> ps = qs)
   \<and> (ps = qs \<and> now \<le> t + CACHE_TTL_MS \<longrightarrow>
        fst (getCached now (cacheKey_of path qs) (setCache t (cacheKey_of path ps) d w)) = d)
   \<and> (ps \<noteq> qs \<longrightarrow>
        fst (getCached now (cacheKey_of path qs) (setCache t (cacheKey_of path ps) d w))
          = fst (getCached now (cacheKey_of path qs) w))"
  by (auto simp: cacheKey_of_inj getCached_def setCache_def split: option.splits)

text \<open>The theorem at the parameters \<open>{a: 1, b: 2}\<close> and \<open>{b: 2, a: 1}\<close>.\<close>
theorem cacheKey_depends_on_order_witness:
  "ab_params \<noteq> ba_params
   \<and> cacheKey_of ''/quote'' ab_params \<noteq> cacheKey_of ''/quote'' ba_params
   \<and> fst (getCached 5 (cacheKey_of ''/quote'' ab_params)
             (setCache 0 (cacheKey_of ''/quote'' ab_params) (JsonBool True) world0)) = JsonBool True
   \<and> fst (getCached 5 (cacheKey_of ''/quote'' ba_params)
             (setCache 0 (cacheKey_of ''/quote'' ab_params) (JsonBool True) world0)) = JsonNull"
  using cacheKey_depends_on_order[of "''/quote''" ab_params ba_params 5 0 "JsonBool True" world0]
    cacheKey_depends_on_order[of "''/quote''" ab_params ab_params 5 0 "JsonBool True" world0]
  by (simp add: ab_params_def ba_params_def CACHE_TTL_MS_def getCached_def world0_def)

text \<open>
  C1 as the specification states it fails: \<open>{a: 1, b: 2}\<close> and \<open>{b: 2, a: 1}\<close> hold the
  same set of pairs and derive different keys, and the second call, made at once after the
  first has stored its payload, asks the upstream again.
\<close>
theorem reordered_params_miss:
  "set ab_params = set ba_params
   \<and> cacheKey_of ''/quote'' ab_params \<noteq> cacheKey_of ''/quote'' ba_params
   \<and> fst (finnhub (delivers (JsonBool True)) ''/quote'' ''k'' ab_params world0) = Inr (JsonBool True)
   \<and> length (fetches (snd (finnhub (delivers (JsonBool True)) ''/quote'' ''k'' ab_params world0))) = 1
   \<and> length (fetches (snd (finnhub (delivers (JsonBool True)) ''/quote'' ''k'' ba_params
        (snd (finnhub (delivers (JsonBool True)) ''/quote'' ''k'' ab_params world0))))) = 2"
  by (simp add: eval_cache ab_params_def ba_params_def insert_commute)

subsection \<open>C2: a live entry is served without a second upstream call\<close>

text \<open>
  C2, as the code has it. When a call has asked the upstream and returned the payload \<open>d\<close>,
  and \<open>d\<close> is truthy (every JSON object and array is, and so is every value of the types
  the call sites declare), then a second call with the same path and parameters whose lookup
  happens no later than the entry's expiry returns \<open>d\<close> and leaves the world as it was:
  no request is added to the log.
\<close>
theorem live_truthy_entry_served:
  assumes "fst (finnhub x path apiKey params w) = Inr d"
    and "fetches (snd (finnhub x path apiKey params w)) \<noteq> fetches w"
    and "truthy d"
    and "t_lookup y \<le> t_store x + CACHE_TTL_MS"
  shows "finnhub y path apiKey' params (snd (finnhub x path apiKey params w))
       = (Inr d, snd (finnhub x path apiKey params w))"
proof -
  let ?ck = "cacheKey_of path params"
  let ?w1 = "snd (getCached (t_lookup x) ?ck w)"
  let ?w2 = "?w1\<lparr>fetches := fetches w @ [build_request path apiKey params]\<rparr>"
  have n: "\<not> truthy (fst (getCached (t_lookup x) ?ck w))"
    using assms(2) finnhub_hit[of x path params w apiKey] by (auto simp: getCached_fetches)
  have r: "finnhub x path apiKey params w = finnhub_resume (t_store x) ?ck (resp x) ?w2"
    by (rule finnhub_miss[OF n])
  have "response_result (resp x) = Inr d"
    using assms(1) unfolding r by (simp add: finnhub_resume_fst)
  then have s: "finnhub x path apiKey params w = (Inr d, setCache (t_store x) ?ck d ?w2)"
    unfolding r by (rule finnhub_resume_success)
  have g: "getCached (t_lookup y) ?ck (setCache (t_store x) ?ck d ?w2)
         = (d, setCache (t_store x) ?ck d ?w2)"
    using assms(4) by (simp add: getCached_def setCache_def)
  show ?thesis
    unfolding s
    using finnhub_hit[of y path params "setCache (t_store x) ?ck d ?w2" apiKey'] g assms(3)
    by simp
qed

text \<open>
  The theorem at an empty list of news: the second call would have been refused by the
  upstream, and is not made.
\<close>
theorem live_truthy_entry_served_witness:
  "fst (finnhub (delivers (News [])) ''/news'' ''k'' general_news world0) = Inr (News [])
   \<and> fetches (snd (finnhub (delivers (News [])) ''/news'' ''k'' general_news world0))
       \<noteq> fetches world0
   \<and> truthy (News [])
   \<and> t_lookup (answers (Rejected ''down'')) \<le> t_store (delivers (News [])) + CACHE_TTL_MS
   \<and> finnhub (answers (Rejected ''down'')) ''/news'' ''k'' general_news
         (snd (finnhub (delivers (News [])) ''/news'' ''k'' general_news world0))
       = (Inr (News []), snd (finnhub (delivers (News [])) ''/news'' ''k'' general_news world0))"
proof -
  have 1: "fst (finnhub (delivers (News [])) ''/news'' ''k'' general_news world0) = Inr (News [])"
    by (simp add: eval_cache general_news_def)
  have 2: "fetches (snd (finnhub (delivers (News [])) ''/news'' ''k'' general_news world0))
       \<noteq> fetches world0"
    by (simp add: eval_cache general_news_def)
  have 3: "truthy (News [])" by simp
  have 4: "t_lookup (answers (Rejected ''down'')) \<le> t_store (delivers (News [])) + CACHE_TTL_MS"
    by (simp add: answers_def delivers_def CACHE_TTL_MS_def)
  from 1 2 3 4 live_truthy_entry_served[OF 1 2 3 4] show ?thesis by blast
qed

text \<open>
  C2 as the specification states it fails for a falsy payload: \<^verbatim>\<open>if (cached)\<close> in line 90
  takes a stored \<^verbatim>\<open>null\<close> for a miss. The payload is stored with expiry 15000, and the second
  lookup, at time 0, asks the upstream again.
\<close>
theorem falsy_payload_fetched_again:
  "fst (finnhub (delivers JsonNull) ''/news'' ''k'' general_news world0) = Inr JsonNull
   \<and> cache (snd (finnhub (delivers JsonNull) ''/news'' ''k'' general_news world0))
         (cacheKey_of ''/news'' general_news)
       = Some \<lparr>data = JsonNull, expiry = 15000\<rparr>
   \<and> t_lookup (delivers JsonNull) \<le> 15000
   \<and> length (fetches (snd (finnhub (delivers JsonNull) ''/news'' ''k'' general_news world0))) = 1
   \<and> length (fetches (snd (finnhub (delivers JsonNull) ''/news'' ''k'' general_news
        (snd (finnhub (delivers JsonNull) ''/news'' ''k'' general_news world0))))) = 2"
  by (simp add: eval_cache general_news_def)

subsection \<open>C3: a failed upstream call stores nothing\<close>

text \<open>
  C3. When a call of \<^verbatim>\<open>finnhub\<close> fails (the request is rejected, the status is not a
  success, or the body is not JSON), then: the part of the call that receives the response
  returns the error and leaves the world it is given unchanged; the store after the call is
  the store as the lookup left it, so that no key has gained or changed an entry; and a
  retry, whenever it is made and whatever the upstream then answers, asks the upstream
  again.
\<close>
theorem failed_fetch_not_cached:
  assumes "fst (finnhub x path apiKey params w) = Inl e"
  shows "finnhub_resume (t_store x) (cacheKey_of path params) (resp x) w0 = (Inl e, w0)
       \<and> cache (snd (finnhub x path apiKey params w))
           = cache (snd (getCached (t_lookup x) (cacheKey_of path params) w))
       \<and> (\<forall>k. cache (snd (finnhub x path apiKey params w)) k = None
             \<or> cache (snd (finnhub x path apiKey params w)) k = cache w k)
       \<and> fetches (snd (finnhub y path apiKey params (snd (finnhub x path apiKey params w))))
           = fetches (snd (finnhub x path apiKey params w)) @ [build_request path apiKey params]"
proof -
  let ?ck = "cacheKey_of path params"
  let ?w1 = "snd (getCached (t_lookup x) ?ck w)"
  let ?w2 = "?w1\<lparr>fetches := fetches w @ [build_request path apiKey params]\<rparr>"
  have n: "\<not> truthy (fst (getCached (t_lookup x) ?ck w))"
    and r: "response_result (resp x) = Inl e"
    and f: "finnhub x path apiKey params w = (Inl e, ?w2)"
    using finnhub_failed[OF assms] by blast+
  have a: "finnhub_resume (t_store x) ?ck (resp x) w0 = (Inl e, w0)"
    using r by (rule finnhub_resume_failure)
  have b: "cache (snd (finnhub x path apiKey params w)) = cache ?w1"
    by (simp add: f)
  have c: "\<forall>k. cache (snd (finnhub x path apiKey params w)) k = None
             \<or> cache (snd (finnhub x path apiKey params w)) k = cache w k"
    unfolding b using getCached_cache by blast
  have n2: "\<not> truthy (fst (getCached (t_lookup y) ?ck ?w2))"
    using getCached_falsy_again[OF n] by (simp add: getCached_more_fetches)
  have "fetches (snd (finnhub y path apiKey params ?w2))
          = fetches ?w2 @ [build_request path apiKey params]"
    unfolding finnhub_miss[OF n2]
    by (simp add: finnhub_resume_fetches getCached_more_fetches)
  then have d: "fetches (snd (finnhub y path apiKey params (snd (finnhub x path apiKey params w))))
           = fetches (snd (finnhub x path apiKey params w)) @ [build_request path apiKey params]"
    by (simp add: f)
  from a b c d show ?thesis by blast
qed

text \<open>The theorem at a 503 answer, in a world that holds an entry under another key.\<close>
theorem failed_fetch_not_cached_witness:
  "fst (finnhub (answers (Response 503 ''busy'' (Inl ''no json''))) ''/news'' ''k'' general_news
          stale_world) = Inl (UpstreamError 503 ''busy'')
   \<and> cache (snd (finnhub (answers (Response 503 ''busy'' (Inl ''no json''))) ''/news'' ''k''
          general_news stale_world)) = cache stale_world
   \<and> length (fetches (snd (finnhub (answers (Rejected ''down'')) ''/news'' ''k'' general_news
        (snd (finnhub (answers (Response 503 ''busy'' (Inl ''no json''))) ''/news'' ''k''
          general_news stale_world))))) = 2"
proof -
  have 1: "fst (finnhub (answers (Response 503 ''busy'' (Inl ''no json''))) ''/news'' ''k''
          general_news stale_world) = Inl (UpstreamError 503 ''busy'')"
    by (simp add: eval_cache general_news_def stale_world_def)
  have 2: "cache (snd (getCached (t_lookup (answers (Response 503 ''busy'' (Inl ''no json''))))
              (cacheKey_of ''/news'' general_news) stale_world)) = cache stale_world"
    by (simp add: eval_cache general_news_def stale_world_def)
  have 3: "length (fetches (snd (finnhub (answers (Response 503 ''busy'' (Inl ''no json'')))
              ''/news'' ''k'' general_news stale_world))) = 1"
    by (simp add: eval_cache general_news_def stale_world_def)
  from 1 2 3
    failed_fetch_not_cached[OF 1, of stale_world "answers (Rejected ''down'')"]
  show ?thesis by simp
qed

subsection \<open>C4: an expired entry is not served\<close>

text \<open>
  C4. A lookup at a time beyond the entry's expiry returns \<^verbatim>\<open>null\<close>, as for an absent key,
  and removes the entry. From then on, whatever lookups, failed or foreign arrivals and
  clearings follow, as long as no successful response for that key arrives, a lookup at any
  time returns \<^verbatim>\<open>null\<close>; and the arrival of a successful response for the key stores a new
  entry, which a lookup within its time to live returns.
\<close>
theorem expired_entry_not_served:
  assumes "cache w key = Some entry" and "now > expiry entry"
  shows "getCached now key w = (JsonNull, w\<lparr>cache := (cache w)(key := None)\<rparr>)
       \<and> ((\<forall>s \<in> set steps. \<not> stores key s) \<longrightarrow>
            getCached later key (fold step_world steps (snd (getCached now key w)))
              = (JsonNull, fold step_world steps (snd (getCached now key w))))
       \<and> (res_ok status \<and> later \<le> t + CACHE_TTL_MS \<longrightarrow>
            fst (getCached later key
                  (step_world (Arrive t key (Response status body (Inr d)))
                     (snd (getCached now key w)))) = d)"
proof -
  have 1: "getCached now key w = (JsonNull, w\<lparr>cache := (cache w)(key := None)\<rparr>)"
    using assms by (simp add: getCached_def)
  have 2: "getCached later key (fold step_world steps (snd (getCached now key w)))
              = (JsonNull, fold step_world steps (snd (getCached now key w)))"
    if "\<forall>s \<in> set steps. \<not> stores key s"
  proof -
    have "cache (snd (getCached now key w)) key = None" using 1 by simp
    with that have "cache (fold step_world steps (snd (getCached now key w))) key = None"
      by (simp add: steps_keep_absent)
    then show ?thesis by (rule getCached_absent)
  qed
  have 3: "fst (getCached later key
                  (step_world (Arrive t key (Response status body (Inr d)))
                     (snd (getCached now key w)))) = d"
    if "res_ok status \<and> later \<le> t + CACHE_TTL_MS"
    using that
    by (simp add: finnhub_resume_def response_result_def setCache_def getCached_def)
  from 1 2 3 show ?thesis by blast
qed

text \<open>The theorem at an entry that expired at time 100, looked up at time 101.\<close>
theorem expired_entry_not_served_witness:
  "cache stale_world ''key'' = Some \<lparr>data = JsonBool True, expiry = 100\<rparr>
   \<and> (101::int) > expiry \<lparr>data = JsonBool True, expiry = 100\<rparr>
   \<and> getCached 101 ''key'' stale_world
       = (JsonNull, stale_world\<lparr>cache := (cache stale_world)(''key'' := None)\<rparr>)
   \<and> getCached 104 ''key''
          (fold step_world [Lookup 102 ''/quote'' ''k'' [], Arrive 103 ''key'' (Rejected ''down''), Clear]
             (snd (getCached 101 ''key'' stale_world)))
       = (JsonNull,
          fold step_world [Lookup 102 ''/quote'' ''k'' [], Arrive 103 ''key'' (Rejected ''down''), Clear]
             (snd (getCached 101 ''key'' stale_world)))
   \<and> res_ok 200 \<and> (104::int) \<le> 103 + CACHE_TTL_MS
   \<and> fst (getCached 104 ''key''
          (step_world (Arrive 103 ''key'' (Response 200 [] (Inr (JsonBool False))))
             (snd (getCached 101 ''key'' stale_world)))) = JsonBool False"
proof -
  have 1: "cache stale_world ''key'' = Some \<lparr>data = JsonBool True, expiry = 100\<rparr>"
    by (simp add: stale_world_def)
  have 2: "(101::int) > expiry \<lparr>data = JsonBool True, expiry = 100\<rparr>" by simp
  have 3: "\<forall>s \<in> set [Lookup 102 ''/quote'' ''k'' [], Arrive 103 ''key'' (Rejected ''down''), Clear].
          \<not> stores ''key'' s" by simp
  have 4: "res_ok 200 \<and> (104::int) \<le> 103 + CACHE_TTL_MS"
    by (simp add: res_ok_def CACHE_TTL_MS_def)
  from 1 2 3 4
    expired_entry_not_served[OF 1 2,
      where steps = "[Lookup 102 ''/quote'' ''k'' [], Arrive 103 ''key'' (Rejected ''down''), Clear]"
        and later = 104 and status = 200 and t = 103 and body = "[]" and d = "JsonBool False"]
  show ?thesis by blast
qed

section \<open>Properties of the tool handlers\<close>

subsection \<open>Helper facts\<close>

lemma finnhub_delivers: "finnhub (delivers d) path k ps world0
   = (Inr d, setCache 0 (cacheKey_of path ps) d (world0\<lparr>fetches := [build_request path k ps]\<rparr>))"
  by (simp add: finnhub_def finnhub_start_cases getCached_def world0_def delivers_def answers_def
      finnhub_resume_def response_result_def res_ok_def)

lemma getKey_stub: "getKey stub_host = Inr ''k''"
  by (simp add: getKey_def stub_host_def)

lemma finnhub_result:
  "fst (finnhub x path key ps w) = r \<Longrightarrow> \<exists>w1. finnhub x path key ps w = (r, w1)"
  by (cases "finnhub x path key ps w") auto

lemma missing_key_is_reported:
  assumes "getKey ctx = Inl e"
  shows "stock_quote ctx x s w = (Some (err (message e)), w)"
    and "stock_search ctx x s w = (Some (err (message e)), w)"
    and "stock_company_profile ctx x s w = (Some (err (message e)), w)"
    and "stock_candles ctx now x s res days w = (Some (err (message e)), w)"
    and "stock_news ctx tto tfrom x so lmt w = (Some (err (message e)), w)"
    and "stock_peers ctx x xs sched s w = (Some (err (message e)), w)"
    and "stock_metrics ctx x s w = (Some (err (message e)), w)"
  using assms
  by (simp_all add: stock_quote_def stock_search_def stock_company_profile_def stock_candles_def
      stock_news_def stock_peers_def stock_metrics_def Let_def)

lemma getKey_unset: "getKey (ctx\<lparr>finnhubApiKey := None\<rparr>) = Inl ConfigurationError"
  by (simp add: getKey_def)

subsection \<open>C5: the missing API key\<close>

text \<open>
  C5 fails in \<^verbatim>\<open>stock_quotes\<close>. The handler calls \<^verbatim>\<open>getKey()\<close> inside the
  \<^verbatim>\<open>try\<close> of each symbol (line 220), whose \<^verbatim>\<open>catch\<close> replaces every error by the line
  of a failed fetch: without an API key, a request for the quote of \<open>aapl\<close> returns a success
  result that reads "AAPL: Error fetching", the world unchanged. The single quote handler, like
  the six others (\<open>missing_key_is_reported\<close>), returns the error result with the
  configuration message.
\<close>

theorem stock_quotes_hides_missing_key:
  "stock_quotes (ctx\<lparr>finnhubApiKey := None\<rparr>) xs [0] [''aapl''] w
     = (Some (ok ''AAPL: Error fetching''), w)
   \<and> isError (ok ''AAPL: Error fetching'') = False
   \<and> stock_quote (ctx\<lparr>finnhubApiKey := None\<rparr>) x ''aapl'' w
     = (Some (err ''Finnhub API key not configured. Set it in plugin settings.''), w)"
proof -
  have u: "toUpperCase ''aapl'' = ''AAPL''"
    by code_simp
  have "stock_quotes (ctx\<lparr>finnhubApiKey := None\<rparr>) xs [0] [''aapl''] w
     = (Some (ok ''AAPL: Error fetching''), w)"
    by (simp add: stock_quotes_def batch_def task_start_def getKey_unset quotes_line_def u)
  moreover have "isError (ok ''AAPL: Error fetching'') = False"
    by (simp add: ok_def)
  moreover have "stock_quote (ctx\<lparr>finnhubApiKey := None\<rparr>) x ''aapl'' w
     = (Some (err ''Finnhub API key not configured. Set it in plugin settings.''), w)"
    using missing_key_is_reported(1)[OF getKey_unset] by simp
  ultimately show ?thesis by blast
qed

subsection \<open>C8: days and limit\<close>

text \<open>
  C8, as the code has it. The number of days lies in the range from 1 to 365 whatever the
  argument; it is 30 when the argument is missing and also when it is 0; every other number
  is clamped into the range. The limit of the news handler likewise, with the range from 1 to
  20 and the default 5.
\<close>

theorem days_and_limit_defaulted_then_clamped:
  "1 \<le> candles_days a \<and> candles_days a \<le> 365
   \<and> candles_days None = 30 \<and> candles_days (Some 0) = 30
   \<and> (n \<noteq> 0 \<longrightarrow> candles_days (Some n) = min (max n 1) 365)
   \<and> 1 \<le> news_limit a \<and> news_limit a \<le> 20
   \<and> news_limit None = 5 \<and> news_limit (Some 0) = 5
   \<and> (n \<noteq> 0 \<longrightarrow> news_limit (Some n) = min (max n 1) 20)"
  by (auto simp: candles_days_def news_limit_def or_default_def split: option.splits)

text \<open>The theorem at the arguments 400, -3 and 7.\<close>

theorem days_and_limit_defaulted_then_clamped_witness:
  "candles_days (Some 400) = 365 \<and> candles_days (Some (-3)) = 1 \<and> candles_days (Some 7) = 7
   \<and> news_limit (Some 400) = 20 \<and> news_limit (Some (-3)) = 1 \<and> news_limit (Some 7) = 7"
  using days_and_limit_defaulted_then_clamped[of "Some 400" 400]
    days_and_limit_defaulted_then_clamped[of "Some (-3)" "-3"]
    days_and_limit_defaulted_then_clamped[of "Some 7" 7]
  by simp

text \<open>
  C8 as the specification states it fails at the argument 0: clamping 0 into the range gives
  1, and the handlers take the default, 30 days and 5 articles.
\<close>

theorem zero_is_not_clamped:
  "candles_days (Some 0) = 30 \<and> min (max (0::real) 1) 365 = 1
   \<and> news_limit (Some 0) = 5 \<and> min (max (0::real) 1) 20 = 1"
  by (simp add: candles_days_def news_limit_def or_default_def)

subsection \<open>C9: the quote of zeros\<close>

text \<open>
  C9, as the code has it. With the API key set, when the quote the handler receives has a
  current price and an open of zero, the handler returns the error result whose text is
  \<^verbatim>\<open>No data found for symbol "SYMBOL". Check the ticker and try again.\<close> with the
  upper-cased symbol.
\<close>

theorem zero_quote_is_no_data_error:
  assumes "getKey ctx = Inr key"
    and "fst (finnhub x ''/quote'' key [(''symbol'', toUpperCase s)] w) = Inr (Quote q)"
    and "q_c q = 0" and "q_o q = 0"
  shows "fst (stock_quote ctx x s w)
       = Some (err (''No data found for symbol '' @ [dquote] @ toUpperCase s @ [dquote]
                    @ ''. Check the ticker and try again.''))"
proof -
  obtain w1 where "finnhub x ''/quote'' key [(''symbol'', toUpperCase s)] w = (Inr (Quote q), w1)"
    using assms(2) by (cases "finnhub x ''/quote'' key [(''symbol'', toUpperCase s)] w") auto
  then show ?thesis using assms(1,3,4) by (simp add: stock_quote_def)
qed

text \<open>The theorem at the symbol \<open>zzzz\<close> and a quote of zeros from the upstream.\<close>

theorem zero_quote_is_no_data_error_witness:
  "fst (stock_quote stub_host (delivers (Quote zero_quote)) ''zzzz'' world0)
       = Some (err (''No data found for symbol '' @ [dquote] @ ''ZZZZ'' @ [dquote]
                    @ ''. Check the ticker and try again.''))"
proof -
  have u: "toUpperCase ''zzzz'' = ''ZZZZ''"
    by code_simp
  have 2: "fst (finnhub (delivers (Quote zero_quote)) ''/quote'' ''k''
              [(''symbol'', toUpperCase ''zzzz'')] world0) = Inr (Quote zero_quote)"
    by (simp add: finnhub_delivers)
  have 3: "q_c zero_quote = 0" and 4: "q_o zero_quote = 0" by (simp_all add: zero_quote_def)
  show ?thesis using zero_quote_is_no_data_error[OF getKey_stub 2 3 4] by (simp add: u)
qed

text \<open>
  C9 as the specification states it fails: the text of the result is not the message that
  ends after the closing quote and the full stop.
\<close>

theorem zero_quote_text_is_longer:
  "fst (stock_quote stub_host (delivers (Quote zero_quote)) ''zzzz'' world0)
     = Some (err (''No data found for symbol '' @ [dquote] @ ''ZZZZ'' @ [dquote]
                  @ ''. Check the ticker and try again.''))
   \<and> fst (stock_quote stub_host (delivers (Quote zero_quote)) ''zzzz'' world0)
     \<noteq> Some (err (''No data found for symbol '' @ [dquote] @ ''ZZZZ'' @ [dquote] @ ''.''))"
proof -
  have u: "toUpperCase ''zzzz'' = ''ZZZZ''"
    by code_simp
  show ?thesis
    by (simp add: stock_quote_def getKey_stub finnhub_delivers zero_quote_def u err_def Let_def)
qed

subsection \<open>C10: no news is a success\<close>

text \<open>
  C10. With the API key set, when the upstream returns no article, the news handler returns
  a success result, for the market news and for the news of a company; the other handlers
  return an error result for their empty answers: a quote of zeros, a search with no result,
  candles whose status is not ok or whose closes are missing or empty, a profile without a
  name, metrics that are missing or empty, an empty list of peers.
\<close>

theorem empty_news_is_success:
  assumes "getKey ctx = Inr key"
  shows
    "(fst (finnhub xn ''/news'' key [(''category'', ''general'')] w) = Inr (News []) \<longrightarrow>
        fst (stock_news ctx tto tfrom xn None lmt w) = Some (ok ''No market news available.''))
   \<and> (sn \<noteq> [] \<and>
       fst (finnhub xc ''/company-news'' key
              [(''symbol'', toUpperCase sn),
               (''from'', toISOString_date ctx (tfrom - 7 * 86400000)),
               (''to'', toISOString_date ctx tto)] w) = Inr (News []) \<longrightarrow>
        fst (stock_news ctx tto tfrom xc (Some sn) lmt w)
          = Some (ok (''No recent news for '' @ toUpperCase sn @ ''.'')))
   \<and> (fst (finnhub xq ''/quote'' key [(''symbol'', toUpperCase s)] w) = Inr (Quote q)
       \<and> q_c q = 0 \<and> q_o q = 0 \<longrightarrow>
        fst (stock_quote ctx xq s w)
          = Some (err (''No data found for symbol '' @ [dquote] @ toUpperCase s @ [dquote]
                       @ ''. Check the ticker and try again.'')))
   \<and> (fst (finnhub xs ''/search'' key [(''q'', query)] w) = Inr (Search r)
       \<and> (result r = None \<or> result r = Some []) \<longrightarrow>
        fst (stock_search ctx xs query w)
          = Some (err (''No results for '' @ [dquote] @ query @ [dquote] @ ''.'')))
   \<and> (cd_s cd \<noteq> ''ok'' \<or> cd_c cd = None \<or> cd_c cd = Some [] \<longrightarrow>
        candles_report ctx symb res days cd
          = err (''No candle data for '' @ [dquote] @ symb @ [dquote] @ '' with resolution ''
                 @ res @ '' over '' @ String_number ctx days @ '' days.''))
   \<and> (fst (finnhub xp ''/stock/profile2'' key [(''symbol'', toUpperCase s)] w) = Inr (Profile p)
       \<and> name p = [] \<longrightarrow>
        fst (stock_company_profile ctx xp s w)
          = Some (err (''No company profile found for '' @ [dquote] @ toUpperCase s @ [dquote]
                       @ ''.'')))
   \<and> (fst (finnhub xm ''/stock/metric'' key [(''symbol'', toUpperCase s), (''metric'', ''all'')] w)
         = Inr (Metrics m)
       \<and> (m = None \<or> m = Some []) \<longrightarrow>
        fst (stock_metrics ctx xm s w)
          = Some (err (''No metrics found for '' @ [dquote] @ toUpperCase s @ [dquote] @ ''.'')))
   \<and> (fst (finnhub xe ''/stock/peers'' key
              [(''symbol'', toUpperCase s), (''grouping'', ''industry'')] w) = Inr (Peers [])
       \<longrightarrow>
        fst (stock_peers ctx xe xt sched s w)
          = Some (err (''No peers found for '' @ [dquote] @ toUpperCase s @ [dquote] @ ''.'')))
   \<and> isError (ok msg) = False \<and> isError (err msg) = True"
proof -
  have n1: "fst (stock_news ctx tto tfrom xn None lmt w) = Some (ok ''No market news available.'')"
    if "fst (finnhub xn ''/news'' key [(''category'', ''general'')] w) = Inr (News [])"
    using finnhub_result[OF that] assms by (auto simp: stock_news_def)
  have n2: "fst (stock_news ctx tto tfrom xc (Some sn) lmt w)
          = Some (ok (''No recent news for '' @ toUpperCase sn @ ''.''))"
    if "sn \<noteq> [] \<and>
       fst (finnhub xc ''/company-news'' key
              [(''symbol'', toUpperCase sn),
               (''from'', toISOString_date ctx (tfrom - 7 * 86400000)),
               (''to'', toISOString_date ctx tto)] w) = Inr (News [])"
    using that[THEN conjunct2, THEN finnhub_result] that assms by (auto simp: stock_news_def)
  have q: "fst (stock_quote ctx xq s w)
          = Some (err (''No data found for symbol '' @ [dquote] @ toUpperCase s @ [dquote]
                       @ ''. Check the ticker and try again.''))"
    if "fst (finnhub xq ''/quote'' key [(''symbol'', toUpperCase s)] w) = Inr (Quote q)
       \<and> q_c q = 0 \<and> q_o q = 0"
    using that[THEN conjunct1, THEN finnhub_result] that assms by (auto simp: stock_quote_def)
  have s: "fst (stock_search ctx xs query w)
          = Some (err (''No results for '' @ [dquote] @ query @ [dquote] @ ''.''))"
    if "fst (finnhub xs ''/search'' key [(''q'', query)] w) = Inr (Search r)
       \<and> (result r = None \<or> result r = Some [])"
    using that[THEN conjunct1, THEN finnhub_result] that assms by (auto simp: stock_search_def)
  have c: "candles_report ctx symb res days cd
          = err (''No candle data for '' @ [dquote] @ symb @ [dquote] @ '' with resolution ''
                 @ res @ '' over '' @ String_number ctx days @ '' days.'')"
    if "cd_s cd \<noteq> ''ok'' \<or> cd_c cd = None \<or> cd_c cd = Some []"
    using that by (auto simp: candles_report_def Let_def split: option.splits)
  have p: "fst (stock_company_profile ctx xp s w)
          = Some (err (''No company profile found for '' @ [dquote] @ toUpperCase s @ [dquote]
                       @ ''.''))"
    if "fst (finnhub xp ''/stock/profile2'' key [(''symbol'', toUpperCase s)] w) = Inr (Profile p)
       \<and> name p = []"
    using that[THEN conjunct1, THEN finnhub_result] that assms
    by (auto simp: stock_company_profile_def)
  have m: "fst (stock_metrics ctx xm s w)
          = Some (err (''No metrics found for '' @ [dquote] @ toUpperCase s @ [dquote] @ ''.''))"
    if "fst (finnhub xm ''/stock/metric'' key [(''symbol'', toUpperCase s), (''metric'', ''all'')] w)
         = Inr (Metrics m)
       \<and> (m = None \<or> m = Some [])"
    using that[THEN conjunct1, THEN finnhub_result] that assms by (auto simp: stock_metrics_def)
  have e: "fst (stock_peers ctx xe xt sched s w)
          = Some (err (''No peers found for '' @ [dquote] @ toUpperCase s @ [dquote] @ ''.''))"
    if "fst (finnhub xe ''/stock/peers'' key
              [(''symbol'', toUpperCase s), (''grouping'', ''industry'')] w) = Inr (Peers [])"
    using finnhub_result[OF that] assms by (auto simp: stock_peers_def)
  have "isError (ok msg) = False \<and> isError (err msg) = True"
    by (simp add: ok_def err_def)
  with n1 n2 q s c p m e show ?thesis by blast
qed

text \<open>The theorem at one empty answer for each handler, from the upstream.\<close>

theorem empty_news_is_success_witness:
  "fst (stock_news stub_host 0 0 (delivers (News [])) None None world0)
     = Some (ok ''No market news available.'')
   \<and> fst (stock_news stub_host 0 0 (delivers (News [])) (Some ''aapl'') None world0)
     = Some (ok (''No recent news for '' @ toUpperCase ''aapl'' @ ''.''))
   \<and> fst (stock_quote stub_host (delivers (Quote zero_quote)) ''aapl'' world0)
     = Some (err (''No data found for symbol '' @ [dquote] @ toUpperCase ''aapl'' @ [dquote]
                  @ ''. Check the ticker and try again.''))
   \<and> fst (stock_search stub_host (delivers (Search empty_search)) ''apple'' world0)
     = Some (err (''No results for '' @ [dquote] @ ''apple'' @ [dquote] @ ''.''))
   \<and> candles_report stub_host ''AAPL'' ''D'' 30 no_candles
     = err (''No candle data for '' @ [dquote] @ ''AAPL'' @ [dquote] @ '' with resolution ''
            @ ''D'' @ '' over '' @ String_number stub_host 30 @ '' days.'')
   \<and> fst (stock_company_profile stub_host (delivers (Profile empty_profile)) ''aapl'' world0)
     = Some (err (''No company profile found for '' @ [dquote] @ toUpperCase ''aapl'' @ [dquote]
                  @ ''.''))
   \<and> fst (stock_metrics stub_host (delivers (Metrics (Some []))) ''aapl'' world0)
     = Some (err (''No metrics found for '' @ [dquote] @ toUpperCase ''aapl'' @ [dquote] @ ''.''))
   \<and> fst (stock_peers stub_host (delivers (Peers [])) (\<lambda>i. delivers JsonNull) [] ''aapl'' world0)
     = Some (err (''No peers found for '' @ [dquote] @ toUpperCase ''aapl'' @ [dquote] @ ''.''))
   \<and> isError (ok ''No market news available.'') = False
   \<and> isError (err ''No market news available.'') = True"
proof -
  have h: "\<And>d path ps. fst (finnhub (delivers d) path ''k'' ps world0) = Inr d"
    by (simp add: finnhub_delivers)
  have a: "(''aapl''::string) \<noteq> []" by simp
  have z: "q_c zero_quote = 0 \<and> q_o zero_quote = 0" by (simp add: zero_quote_def)
  have r: "result empty_search = None \<or> result empty_search = Some []"
    by (simp add: empty_search_def)
  have c: "cd_s no_candles \<noteq> ''ok'' \<or> cd_c no_candles = None \<or> cd_c no_candles = Some []"
    by (simp add: no_candles_def)
  have p: "name empty_profile = []" by (simp add: empty_profile_def)
  have m: "Some ([]::(string \<times> real option) list) = None \<or> Some ([]::(string \<times> real option) list) = Some []"
    by simp
  note t = empty_news_is_success[OF getKey_stub,
      where w = world0 and xn = "delivers (News [])" and tto = 0 and tfrom = 0 and lmt = None
        and sn = "''aapl''" and xc = "delivers (News [])"
        and xq = "delivers (Quote zero_quote)" and s = "''aapl''" and q = zero_quote
        and xs = "delivers (Search empty_search)" and query = "''apple''" and r = empty_search
        and cd = no_candles and symb = "''AAPL''" and res = "''D''" and days = 30
        and xp = "delivers (Profile empty_profile)" and p = empty_profile
        and xm = "delivers (Metrics (Some []))" and m = "Some []"
        and xe = "delivers (Peers [])" and xt = "\<lambda>i. delivers JsonNull" and sched = "[]"
        and msg = "''No market news available.''"]
  from t h a z r c p m show ?thesis by blast
qed

subsection \<open>C6: parallel fetches keep the order of the input\<close>

lemma start_all_length: "length (fst (start_all ctx xs i syms w)) = length syms"
  by (induction syms arbitrary: i w) (simp_all add: split_beta Let_def)

lemma settled_outcome:
  "fst (case p of
          Done r \<Rightarrow> settle_all xs ps sched (results[i := Some r]) w
        | Waiting cacheKey \<Rightarrow>
            (let (r, w1) = finnhub_resume (t_store (xs i)) cacheKey (resp (xs i)) w
             in settle_all xs ps sched (results[i := Some r]) w1))
   = fst (settle_all xs ps sched (results[i := Some (task_outcome xs i p)])
        (case p of Done r \<Rightarrow> w
         | Waiting cacheKey \<Rightarrow> snd (finnhub_resume (t_store (xs i)) cacheKey (resp (xs i)) w)))"
  by (cases p) (simp_all add: task_outcome_def split_beta finnhub_resume_fst)

lemma settle_all_results:
  "length results = length ps \<Longrightarrow>
   fst (settle_all xs ps sched results w)
     = map (\<lambda>i. case results ! i of
                  Some r \<Rightarrow> Some r
                | None \<Rightarrow> if i \<in> set sched then Some (task_outcome xs i (ps ! i)) else None)
           [0..<length ps]"
proof (induction sched arbitrary: results w)
  case Nil
  have m: "map (\<lambda>i. results ! i) [0..<length ps] = results"
    using Nil map_nth[of results] by simp
  have e: "(\<lambda>i. case results ! i of
                  Some r \<Rightarrow> Some r
                | None \<Rightarrow> if i \<in> set [] then Some (task_outcome xs i (ps ! i)) else None)
         = (\<lambda>i. results ! i)"
    by (rule ext) (simp split: option.splits)
  show ?case unfolding e m by simp
next
  case (Cons i sched)
  show ?case
  proof (cases "i < length ps \<and> results ! i = None")
    case True
    let ?results = "results[i := Some (task_outcome xs i (ps ! i))]"
    have len: "length ?results = length ps" using Cons.prems by simp
    have "fst (settle_all xs ps (i # sched) results w)
        = fst (settle_all xs ps sched ?results
            (case ps ! i of Done r \<Rightarrow> w
             | Waiting cacheKey \<Rightarrow>
                 snd (finnhub_resume (t_store (xs i)) cacheKey (resp (xs i)) w)))"
      using True by (simp add: settled_outcome)
    also have "\<dots> = map (\<lambda>j. case ?results ! j of
                  Some r \<Rightarrow> Some r
                | None \<Rightarrow> if j \<in> set sched then Some (task_outcome xs j (ps ! j)) else None)
           [0..<length ps]"
      by (rule Cons.IH[OF len])
    also have "\<dots> = map (\<lambda>j. case results ! j of
                  Some r \<Rightarrow> Some r
                | None \<Rightarrow> if j \<in> set (i # sched) then Some (task_outcome xs j (ps ! j)) else None)
           [0..<length ps]"
      using True Cons.prems by (auto simp: nth_list_update split: option.splits)
    finally show ?thesis .
  next
    case False
    have "fst (settle_all xs ps (i # sched) results w) = fst (settle_all xs ps sched results w)"
      using False by auto
    also have "\<dots> = map (\<lambda>j. case results ! j of
                  Some r \<Rightarrow> Some r
                | None \<Rightarrow> if j \<in> set sched then Some (task_outcome xs j (ps ! j)) else None)
           [0..<length ps]"
      by (rule Cons.IH[OF Cons.prems])
    also have "\<dots> = map (\<lambda>j. case results ! j of
                  Some r \<Rightarrow> Some r
                | None \<Rightarrow> if j \<in> set (i # sched) then Some (task_outcome xs j (ps ! j)) else None)
           [0..<length ps]"
      using False by (auto split: option.splits)
    finally show ?thesis .
  qed
qed

lemma settle_all_complete:
  assumes "{0..<length ps} \<subseteq> set sched"
  shows "fst (settle_all xs ps sched (replicate (length ps) None) w)
       = map (\<lambda>i. Some (task_outcome xs i (ps ! i))) [0..<length ps]"
proof -
  have "fst (settle_all xs ps sched (replicate (length ps) None) w)
      = map (\<lambda>i. case replicate (length ps) None ! i of
                  Some r \<Rightarrow> Some r
                | None \<Rightarrow> if i \<in> set sched then Some (task_outcome xs i (ps ! i)) else None)
           [0..<length ps]"
    by (rule settle_all_results) simp
  also have "\<dots> = map (\<lambda>i. Some (task_outcome xs i (ps ! i))) [0..<length ps]"
    using assms by auto
  finally show ?thesis .
qed

lemma Promise_all_Some: "Promise_all (map (\<lambda>i. Some (f i)) is) = Some (map f is)"
  by (induction "is") simp_all

lemma Promise_all_defined:
  "\<forall>i \<in> set is. f i = Some (g i) \<Longrightarrow> Promise_all (map f is) = Some (map g is)"
  by (induction "is") simp_all

lemma map2_upt:
  "length ys = n \<Longrightarrow> map2 g ys (map f [0..<n]) = map (\<lambda>i. g (ys ! i) (f i)) [0..<n]"
proof -
  assume n: "length ys = n"
  have "map2 g (map ((!) ys) [0..<n]) (map f [0..<n]) = map (\<lambda>i. g (ys ! i) (f i)) [0..<n]"
    by (simp add: zip_map_map zip_same_conv_map o_def)
  moreover have "map ((!) ys) [0..<n] = ys"
    using n map_nth[of ys] by simp
  ultimately show ?thesis by simp
qed

lemma batch_complete:
  assumes "{0..<length syms} \<subseteq> set sched"
  shows "fst (batch ctx xs sched line syms w)
       = Promise_all
           (map (\<lambda>i. line (syms ! i)
                        (task_outcome xs i (fst (start_all ctx xs 0 syms w) ! i)))
                [0..<length syms])"
proof -
  obtain ps w1 where s: "start_all ctx xs 0 syms w = (ps, w1)"
    by (cases "start_all ctx xs 0 syms w")
  then have len: "length ps = length syms"
    using start_all_length[of ctx xs 0 syms w] by simp
  obtain rs w2 where r: "settle_all xs ps sched (replicate (length ps) None) w1 = (rs, w2)"
    by (cases "settle_all xs ps sched (replicate (length ps) None) w1")
  have "rs = map (\<lambda>i. Some (task_outcome xs i (ps ! i))) [0..<length ps]"
    using settle_all_complete[of ps sched xs w1] assms len r by simp
  then have p: "Promise_all rs = Some (map (\<lambda>i. task_outcome xs i (ps ! i)) [0..<length syms])"
    by (simp add: Promise_all_Some len)
  show ?thesis
    by (simp add: batch_def s r p map2_upt)
qed

lemma batch_lines:
  assumes "{0..<length syms} \<subseteq> set sched"
    and "\<forall>i<length syms. \<exists>ln.
           line (syms ! i) (task_outcome xs i (fst (start_all ctx xs 0 syms w) ! i)) = Some ln"
  shows "\<exists>lines. fst (batch ctx xs sched line syms w) = Some lines
           \<and> length lines = length syms
           \<and> (\<forall>i<length syms.
                 line (syms ! i) (task_outcome xs i (fst (start_all ctx xs 0 syms w) ! i))
                   = Some (lines ! i))"
proof -
  let ?f = "\<lambda>i. line (syms ! i) (task_outcome xs i (fst (start_all ctx xs 0 syms w) ! i))"
  have "\<forall>i \<in> set [0..<length syms]. ?f i = Some (the (?f i))"
    using assms(2) by auto
  then have "Promise_all (map ?f [0..<length syms]) = Some (map (\<lambda>i. the (?f i)) [0..<length syms])"
    by (rule Promise_all_defined)
  then have "fst (batch ctx xs sched line syms w) = Some (map (\<lambda>i. the (?f i)) [0..<length syms])"
    using batch_complete[OF assms(1)] by simp
  moreover have "\<forall>i<length syms. ?f i = Some (map (\<lambda>i. the (?f i)) [0..<length syms] ! i)"
    using assms(2) by auto
  ultimately show ?thesis by (intro exI[of _ "map (\<lambda>i. the (?f i)) [0..<length syms]"]) simp
qed

lemma stock_quotes_batch:
  "fst (stock_quotes ctx xs sched syms w)
     = map_option (\<lambda>lines. ok (join newline lines))
         (fst (batch ctx xs sched (quotes_line ctx) (map toUpperCase syms) w))"
  by (simp add: stock_quotes_def split: prod.splits option.splits)

lemma stock_peers_batch:
  assumes "getKey ctx = Inr key"
    and "finnhub x ''/stock/peers'' key [(''symbol'', toUpperCase s), (''grouping'', ''industry'')] w
           = (Inr (Peers peers), w1)"
    and "peers \<noteq> []"
  shows "fst (stock_peers ctx x xs sched s w)
     = map_option (\<lambda>quotes. ok (''Peers of '' @ toUpperCase s @ '':'' @ newline @ join newline quotes))
         (fst (batch ctx xs sched (peers_line ctx) (topPeers_of (toUpperCase s) peers) w1))"
  using assms by (simp add: stock_peers_def Let_def split: prod.splits option.splits)

lemma upper_examples:
  "toUpperCase ''aapl'' = ''AAPL''" "toUpperCase ''msft'' = ''MSFT''"
  by code_simp+

lemma stub_formats:
  "formatCurrency stub_host n = ''#''" "toFixed stub_host digits n = ''#''"
  by (simp_all add: formatCurrency_def stub_host_def)

lemma length_two: "length xs = 2 \<Longrightarrow> xs = [xs ! 0, xs ! 1]"
  by (cases xs; cases "tl xs") auto

text \<open>
  C6. In \<^verbatim>\<open>stock_quotes\<close>, whenever every task settles, in whatever order the schedule
  lets the responses arrive, the result is a success whose text joins exactly one line per
  input symbol, and line \<open>i\<close> is the line of symbol \<open>i\<close>, made of that symbol and of what
  its own call of \<^verbatim>\<open>finnhub\<close> threw or returned. The line of a call that threw is the
  placeholder "SYMBOL: Error fetching"; the other lines stand as they are. In
  \<^verbatim>\<open>stock_peers\<close> the same holds for the first eight peers other than the symbol itself,
  after the heading, with the placeholder "PEER: Error". (The payload of every call that
  returns is taken to be a quote or \<^verbatim>\<open>null\<close>, the cases \<open>quotes_line\<close> and \<open>peers_line\<close>
  model.) Two schedules that both settle every task give the same result.
\<close>

theorem batch_lines_in_input_order:
  "({0..<length syms} \<subseteq> set sched
     \<and> (\<forall>i<length syms. \<exists>ln.
           quotes_line ctx (map toUpperCase syms ! i)
             (task_outcome xs i (fst (start_all ctx xs 0 (map toUpperCase syms) w) ! i)) = Some ln)
    \<longrightarrow> (\<exists>lines. fst (stock_quotes ctx xs sched syms w) = Some (ok (join newline lines))
            \<and> length lines = length syms
            \<and> (\<forall>i<length syms.
                  quotes_line ctx (map toUpperCase syms ! i)
                    (task_outcome xs i (fst (start_all ctx xs 0 (map toUpperCase syms) w) ! i))
                  = Some (lines ! i))))
   \<and> (getKey ctx = Inr key
      \<and> finnhub x ''/stock/peers'' key [(''symbol'', toUpperCase s), (''grouping'', ''industry'')] w
          = (Inr (Peers peers), w1)
      \<and> peers \<noteq> []
      \<and> {0..<length (topPeers_of (toUpperCase s) peers)} \<subseteq> set sched
      \<and> (\<forall>i<length (topPeers_of (toUpperCase s) peers). \<exists>ln.
           peers_line ctx (topPeers_of (toUpperCase s) peers ! i)
             (task_outcome xs i
                (fst (start_all ctx xs 0 (topPeers_of (toUpperCase s) peers) w1) ! i)) = Some ln)
    \<longrightarrow> (\<exists>lines. fst (stock_peers ctx x xs sched s w)
              = Some (ok (''Peers of '' @ toUpperCase s @ '':'' @ newline @ join newline lines))
            \<and> length lines = length (topPeers_of (toUpperCase s) peers)
            \<and> (\<forall>i<length (topPeers_of (toUpperCase s) peers).
                  peers_line ctx (topPeers_of (toUpperCase s) peers ! i)
                    (task_outcome xs i
                       (fst (start_all ctx xs 0 (topPeers_of (toUpperCase s) peers) w1) ! i))
                  = Some (lines ! i))))
   \<and> ({0..<length syms} \<subseteq> set sched \<and> {0..<length syms} \<subseteq> set sched2
    \<longrightarrow> fst (stock_quotes ctx xs sched syms w) = fst (stock_quotes ctx xs sched2 syms w))
   \<and> (getKey ctx = Inr key
      \<and> finnhub x ''/stock/peers'' key [(''symbol'', toUpperCase s), (''grouping'', ''industry'')] w
          = (Inr (Peers peers), w1)
      \<and> peers \<noteq> []
      \<and> {0..<length (topPeers_of (toUpperCase s) peers)} \<subseteq> set sched
      \<and> {0..<length (topPeers_of (toUpperCase s) peers)} \<subseteq> set sched2
    \<longrightarrow> fst (stock_peers ctx x xs sched s w) = fst (stock_peers ctx x xs sched2 s w))
   \<and> quotes_line ctx symb (Inl e) = Some (symb @ '': Error fetching'')
   \<and> peers_line ctx symb (Inl e) = Some (symb @ '': Error'')"
proof -
  have iq: "fst (stock_quotes ctx xs sched syms w) = fst (stock_quotes ctx xs sched2 syms w)"
    if "{0..<length syms} \<subseteq> set sched \<and> {0..<length syms} \<subseteq> set sched2"
  proof -
    have "{0..<length (map toUpperCase syms)} \<subseteq> set sched"
      and "{0..<length (map toUpperCase syms)} \<subseteq> set sched2"
      using that by simp_all
    then have "fst (batch ctx xs sched (quotes_line ctx) (map toUpperCase syms) w)
        = fst (batch ctx xs sched2 (quotes_line ctx) (map toUpperCase syms) w)"
      by (simp only: batch_complete)
    then show ?thesis by (simp only: stock_quotes_batch)
  qed
  have ip: "fst (stock_peers ctx x xs sched s w) = fst (stock_peers ctx x xs sched2 s w)"
    if "getKey ctx = Inr key
      \<and> finnhub x ''/stock/peers'' key [(''symbol'', toUpperCase s), (''grouping'', ''industry'')] w
          = (Inr (Peers peers), w1)
      \<and> peers \<noteq> []
      \<and> {0..<length (topPeers_of (toUpperCase s) peers)} \<subseteq> set sched
      \<and> {0..<length (topPeers_of (toUpperCase s) peers)} \<subseteq> set sched2"
  proof -
    have k: "getKey ctx = Inr key"
      and f: "finnhub x ''/stock/peers'' key
                [(''symbol'', toUpperCase s), (''grouping'', ''industry'')] w
              = (Inr (Peers peers), w1)"
      and n: "peers \<noteq> []"
      and c1: "{0..<length (topPeers_of (toUpperCase s) peers)} \<subseteq> set sched"
      and c2: "{0..<length (topPeers_of (toUpperCase s) peers)} \<subseteq> set sched2"
      using that by blast+
    have "fst (batch ctx xs sched (peers_line ctx) (topPeers_of (toUpperCase s) peers) w1)
        = fst (batch ctx xs sched2 (peers_line ctx) (topPeers_of (toUpperCase s) peers) w1)"
      by (simp only: batch_complete[OF c1] batch_complete[OF c2])
    then show ?thesis by (simp only: stock_peers_batch[OF k f n])
  qed
  have q: "\<exists>lines. fst (stock_quotes ctx xs sched syms w) = Some (ok (join newline lines))
            \<and> length lines = length syms
            \<and> (\<forall>i<length syms.
                  quotes_line ctx (map toUpperCase syms ! i)
                    (task_outcome xs i (fst (start_all ctx xs 0 (map toUpperCase syms) w) ! i))
                  = Some (lines ! i))"
    if "{0..<length syms} \<subseteq> set sched
     \<and> (\<forall>i<length syms. \<exists>ln.
           quotes_line ctx (map toUpperCase syms ! i)
             (task_outcome xs i (fst (start_all ctx xs 0 (map toUpperCase syms) w) ! i)) = Some ln)"
  proof -
    note h = that
    obtain lines where
      "fst (batch ctx xs sched (quotes_line ctx) (map toUpperCase syms) w) = Some lines"
      "length lines = length (map toUpperCase syms)"
      "\<forall>i<length (map toUpperCase syms).
         quotes_line ctx (map toUpperCase syms ! i)
           (task_outcome xs i (fst (start_all ctx xs 0 (map toUpperCase syms) w) ! i))
         = Some (lines ! i)"
    proof -
      have c: "{0..<length (map toUpperCase syms)} \<subseteq> set sched" using h by simp
      have d: "\<forall>i<length (map toUpperCase syms). \<exists>ln.
           quotes_line ctx (map toUpperCase syms ! i)
             (task_outcome xs i (fst (start_all ctx xs 0 (map toUpperCase syms) w) ! i)) = Some ln"
        using h by simp
      from batch_lines[OF c d] show ?thesis using that by blast
    qed
    then show ?thesis by (intro exI[of _ lines]) (simp add: stock_quotes_batch)
  qed
  have p: "\<exists>lines. fst (stock_peers ctx x xs sched s w)
              = Some (ok (''Peers of '' @ toUpperCase s @ '':'' @ newline @ join newline lines))
            \<and> length lines = length (topPeers_of (toUpperCase s) peers)
            \<and> (\<forall>i<length (topPeers_of (toUpperCase s) peers).
                  peers_line ctx (topPeers_of (toUpperCase s) peers ! i)
                    (task_outcome xs i
                       (fst (start_all ctx xs 0 (topPeers_of (toUpperCase s) peers) w1) ! i))
                  = Some (lines ! i))"
    if "getKey ctx = Inr key
      \<and> finnhub x ''/stock/peers'' key [(''symbol'', toUpperCase s), (''grouping'', ''industry'')] w
          = (Inr (Peers peers), w1)
      \<and> peers \<noteq> []
      \<and> {0..<length (topPeers_of (toUpperCase s) peers)} \<subseteq> set sched
      \<and> (\<forall>i<length (topPeers_of (toUpperCase s) peers). \<exists>ln.
           peers_line ctx (topPeers_of (toUpperCase s) peers ! i)
             (task_outcome xs i
                (fst (start_all ctx xs 0 (topPeers_of (toUpperCase s) peers) w1) ! i)) = Some ln)"
  proof -
    note h = that
    obtain lines where
      "fst (batch ctx xs sched (peers_line ctx) (topPeers_of (toUpperCase s) peers) w1) = Some lines"
      "length lines = length (topPeers_of (toUpperCase s) peers)"
      "\<forall>i<length (topPeers_of (toUpperCase s) peers).
         peers_line ctx (topPeers_of (toUpperCase s) peers ! i)
           (task_outcome xs i
              (fst (start_all ctx xs 0 (topPeers_of (toUpperCase s) peers) w1) ! i))
         = Some (lines ! i)"
    proof -
      have c: "{0..<length (topPeers_of (toUpperCase s) peers)} \<subseteq> set sched"
        using h by blast
      have d: "\<forall>i<length (topPeers_of (toUpperCase s) peers). \<exists>ln.
           peers_line ctx (topPeers_of (toUpperCase s) peers ! i)
             (task_outcome xs i
                (fst (start_all ctx xs 0 (topPeers_of (toUpperCase s) peers) w1) ! i)) = Some ln"
        using h by blast
      from batch_lines[OF c d] show ?thesis using that by blast
    qed
    moreover have "fst (stock_peers ctx x xs sched s w)
       = map_option (\<lambda>quotes. ok (''Peers of '' @ toUpperCase s @ '':'' @ newline @ join newline quotes))
         (fst (batch ctx xs sched (peers_line ctx) (topPeers_of (toUpperCase s) peers) w1))"
      using h by (intro stock_peers_batch) auto
    ultimately show ?thesis by (intro exI[of _ lines]) simp
  qed
  have f: "quotes_line ctx symb (Inl e) = Some (symb @ '': Error fetching'')
   \<and> peers_line ctx symb (Inl e) = Some (symb @ '': Error'')"
    by (simp add: quotes_line_def peers_line_def)
  from q p iq ip f show ?thesis by blast
qed

text \<open>
  The theorem at two symbols whose responses arrive in reverse order, the first call being
  refused by the network.
\<close>

theorem batch_lines_in_input_order_witness:
  "fst (stock_quotes stub_host two_answers [1, 0] [''aapl'', ''msft''] world0)
     = Some (ok (join newline [''AAPL: Error fetching'', ''MSFT: $# (+#%)'']))
   \<and> fst (stock_peers stub_host (delivers (Peers three_peers)) two_answers [1, 0] ''aapl'' world0)
     = Some (ok (''Peers of '' @ toUpperCase ''aapl'' @ '':'' @ newline
                 @ join newline [''MSFT: Error'', ''GOOG: $# (+#%)'']))
   \<and> fst (stock_quotes stub_host two_answers [1, 0] [''aapl'', ''msft''] world0)
     = fst (stock_quotes stub_host two_answers [0, 1] [''aapl'', ''msft''] world0)
   \<and> fst (stock_peers stub_host (delivers (Peers three_peers)) two_answers [1, 0] ''aapl'' world0)
     = fst (stock_peers stub_host (delivers (Peers three_peers)) two_answers [0, 1] ''aapl'' world0)"
proof -
  let ?syms = "[''aapl'', ''msft'']"
  let ?q = "\<lambda>i. quotes_line stub_host (map toUpperCase ?syms ! i)
             (task_outcome two_answers i
                (fst (start_all stub_host two_answers 0 (map toUpperCase ?syms) world0) ! i))"
  have q0: "?q 0 = Some ''AAPL: Error fetching''"
    by (simp add: upper_examples task_start_def getKey_stub finnhub_start_cases getCached_def
        world0_def task_outcome_def two_answers_def answers_def response_result_def quotes_line_def)
  have q1: "?q 1 = Some ''MSFT: $# (+#%)''"
    by (simp add: upper_examples task_start_def getKey_stub finnhub_start_cases getCached_def
        world0_def task_outcome_def two_answers_def answers_def delivers_def response_result_def
        res_ok_def quotes_line_def one_quote_def stub_formats)
  note Q = batch_lines_in_input_order[where syms = ?syms and sched = "[1, 0]"
      and ?sched2.0 = "[0, 1]" and ctx = stub_host and xs = two_answers and w = world0]
  have c: "{0..<length ?syms} \<subseteq> set [1, 0]" by auto
  have d: "\<forall>i<length ?syms. \<exists>ln. ?q i = Some ln"
    using q0 q1 by (auto simp: less_Suc_eq)
  obtain lines where l: "fst (stock_quotes stub_host two_answers [1, 0] ?syms world0)
        = Some (ok (join newline lines))"
    and n: "length lines = length ?syms" and v: "\<forall>i<length ?syms. ?q i = Some (lines ! i)"
    using Q[THEN conjunct1] c d by blast
  have "lines ! 0 = ''AAPL: Error fetching''" "lines ! 1 = ''MSFT: $# (+#%)''"
    using v q0 q1 by auto
  then have "lines = [''AAPL: Error fetching'', ''MSFT: $# (+#%)'']"
    using length_two[of lines] n by simp
  with l have A: "fst (stock_quotes stub_host two_answers [1, 0] ?syms world0)
     = Some (ok (join newline [''AAPL: Error fetching'', ''MSFT: $# (+#%)'']))" by simp
  let ?ps = "[(''symbol'', toUpperCase ''aapl''), (''grouping'', ''industry'')]"
  let ?w1 = "setCache 0 (cacheKey_of ''/stock/peers'' ?ps) (Peers three_peers)
               (world0\<lparr>fetches := [build_request ''/stock/peers'' ''k'' ?ps]\<rparr>)"
  let ?tp = "topPeers_of (toUpperCase ''aapl'') three_peers"
  let ?p = "\<lambda>i. peers_line stub_host (?tp ! i)
             (task_outcome two_answers i (fst (start_all stub_host two_answers 0 ?tp ?w1) ! i))"
  have tp: "?tp = [''MSFT'', ''GOOG'']"
    by (simp add: topPeers_of_def three_peers_def upper_examples)
  have f: "finnhub (delivers (Peers three_peers)) ''/stock/peers'' ''k'' ?ps world0
      = (Inr (Peers three_peers), ?w1)"
    by (rule finnhub_delivers)
  have p0: "?p 0 = Some ''MSFT: Error''"
    unfolding tp
    by (simp add: task_start_def getKey_stub finnhub_start_cases getCached_def setCache_def
        cacheKey_of_def world0_def task_outcome_def two_answers_def answers_def response_result_def
        peers_line_def)
  have p1: "?p 1 = Some ''GOOG: $# (+#%)''"
    unfolding tp
    by (simp add: task_start_def getKey_stub finnhub_start_cases getCached_def setCache_def
        cacheKey_of_def world0_def task_outcome_def two_answers_def answers_def delivers_def
        response_result_def res_ok_def peers_line_def one_quote_def stub_formats)
  note P = batch_lines_in_input_order[where ctx = stub_host and key = "''k''"
      and x = "delivers (Peers three_peers)" and s = "''aapl''" and w = world0
      and peers = three_peers and ?w1.0 = ?w1 and sched = "[1, 0]" and ?sched2.0 = "[0, 1]"
      and xs = two_answers]
  have n3: "three_peers \<noteq> []" by (simp add: three_peers_def)
  have c2: "{0..<length ?tp} \<subseteq> set [1, 0]" unfolding tp by auto
  have d2: "\<forall>i<length ?tp. \<exists>ln. ?p i = Some ln"
    using p0 p1 by (auto simp: tp less_Suc_eq)
  obtain quotes where l2: "fst (stock_peers stub_host (delivers (Peers three_peers)) two_answers
            [1, 0] ''aapl'' world0)
        = Some (ok (''Peers of '' @ toUpperCase ''aapl'' @ '':'' @ newline @ join newline quotes))"
    and n2: "length quotes = length ?tp" and v2: "\<forall>i<length ?tp. ?p i = Some (quotes ! i)"
    using P[THEN conjunct2, THEN conjunct1] getKey_stub f n3 c2 d2 by blast
  have "quotes ! 0 = ''MSFT: Error''" "quotes ! 1 = ''GOOG: $# (+#%)''"
    using v2 p0 p1 by (auto simp: tp)
  then have "quotes = [''MSFT: Error'', ''GOOG: $# (+#%)'']"
    using length_two[of quotes] n2 by (simp add: tp)
  with l2 have B: "fst (stock_peers stub_host (delivers (Peers three_peers)) two_answers
            [1, 0] ''aapl'' world0)
     = Some (ok (''Peers of '' @ toUpperCase ''aapl'' @ '':'' @ newline
                 @ join newline [''MSFT: Error'', ''GOOG: $# (+#%)'']))" by simp
  have c': "{0..<length ?syms} \<subseteq> set [0, 1]" by auto
  have C: "fst (stock_quotes stub_host two_answers [1, 0] ?syms world0)
     = fst (stock_quotes stub_host two_answers [0, 1] ?syms world0)"
    using Q[THEN conjunct2, THEN conjunct2, THEN conjunct1] c c' by blast
  have c2': "{0..<length ?tp} \<subseteq> set [0, 1]" unfolding tp by auto
  have D: "fst (stock_peers stub_host (delivers (Peers three_peers)) two_answers [1, 0] ''aapl'' world0)
     = fst (stock_peers stub_host (delivers (Peers three_peers)) two_answers [0, 1] ''aapl'' world0)"
    using P[THEN conjunct2, THEN conjunct2, THEN conjunct2, THEN conjunct1]
      getKey_stub f n3 c2 c2' by blast
  from A B C D show ?thesis by blast
qed

subsection \<open>C7: the summary of a candle series\<close>














end
